theory Spec2Isabelle
  imports Main "HOL-Library.Char_ord" "HOL-Library.List_Lexorder"
begin

section \<open>Data model\<close>

text \<open>
  Modelled from the spec: \<open>core/models.py\<close> (the classes \<open>Tag\<close> and \<open>Project\<close>) is not
  among the sources. Section 3 of the specification gives a tag an identifier, a name and
  an owner, and a project an identifier, title, description, price, link, owner and a set
  of tag references; the tests build them with the keywords \<open>user\<close>, \<open>name\<close>, \<open>title\<close>,
  \<open>description\<close>, \<open>price\<close> and reach the relation as \<open>project.tags\<close>. The relational
  store is three tables, each a list of rows in the order in which a query without
  \<open>ORDER BY\<close> yields them; the many-to-many relation \<open>Project.tags\<close> is its join table of
  (project id, tag id) pairs. A price is an integer number of hundredths.
\<close>

type_synonym user = nat

type_synonym decimal = int

record tag =
  tag_id :: nat
  tag_name :: string
  tag_user :: user

record project =
  project_id :: nat
  title :: string
  description :: string
  price :: decimal
  link :: string
  project_user :: user

record db =
  tag_tbl :: "tag list"
  project_tbl :: "project list"
  project_tags_tbl :: "(nat \<times> nat) list"

text \<open>
  The exceptions a request can end in, and the status each becomes. \<open>NotFound\<close> and
  \<open>ValidationError\<close> are handled by the framework; a \<open>ValueError\<close> or a \<open>FieldError\<close>
  raised inside a view is handled by nobody and becomes a server error.
\<close>

datatype error = NotFound | ValidationError | MethodNotAllowed | ValueError | FieldError

fun status_code :: "error \<Rightarrow> nat" where
  "status_code NotFound = 404"
| "status_code ValidationError = 400"
| "status_code MethodNotAllowed = 405"
| "status_code ValueError = 500"
| "status_code FieldError = 500"

definition HTTP_403_FORBIDDEN :: nat where
  "HTTP_403_FORBIDDEN = 403"

text \<open>A primary key for a new row: one more than every key of the table.\<close>

definition new_id :: "nat list \<Rightarrow> nat" where
  "new_id ids = Suc (fold max ids 0)"

definition wf_db :: "db \<Rightarrow> bool" where
  "wf_db d \<longleftrightarrow> distinct (map tag_id (tag_tbl d)) \<and> distinct (map project_id (project_tbl d))"

section \<open>Python's \<open>int\<close> on a string\<close>

text \<open>
  A Python string is a sequence of code points. \<open>int(s)\<close> in base ten first rewrites
  a string that is not pure ASCII: a blank of the Unicode database becomes a space, a
  decimal digit of any script becomes the ASCII digit of its value, and the first other
  code point from 127 on becomes a question mark that ends the text. The ASCII text is
  then read: blanks around the number are skipped, one sign is allowed, the digits may be
  separated by single underscores, more than \<open>max_str_digits\<close> digits are refused, and
  whatever else is left raises \<open>ValueError\<close> (\<open>None\<close> here). A code point 0 ends the
  text for the reader and the conversion then fails because text is left over; here it
  is a character that is neither digit nor blank, which fails the same way.

  The tables are those of Unicode 14.0, the database of Python 3.11: the blanks, and the
  code point of the digit zero of each of the 66 runs of ten decimal digits. The limit
  of 4300 digits is the interpreter's default (leading zeros count, underscores, sign and
  blanks do not).
\<close>

type_synonym py_str = "nat list"

definition codepoints :: "string \<Rightarrow> py_str" where
  "codepoints s = map of_char s"

definition Py_ISSPACE :: "nat \<Rightarrow> bool" where
  "Py_ISSPACE c \<longleftrightarrow> c \<in> set [9, 10, 11, 12, 13, 32]"

definition Py_UNICODE_ISSPACE :: "nat \<Rightarrow> bool" where
  "Py_UNICODE_ISSPACE c \<longleftrightarrow>
     c \<in> set [9, 10, 11, 12, 13, 28, 29, 30, 31, 32, 133, 160, 5760, 8192, 8193, 8194,
              8195, 8196, 8197, 8198, 8199, 8200, 8201, 8202, 8232, 8233, 8239, 8287,
              12288]"

definition decimal_zeros :: "nat list" where
  "decimal_zeros =
     [48, 1632, 1776, 1984, 2406, 2534, 2662, 2790, 2918, 3046, 3174, 3302, 3430,
      3558, 3664, 3792, 3872, 4160, 4240, 6112, 6160, 6470, 6608, 6784, 6800,
      6992, 7088, 7232, 7248, 42528, 43216, 43264, 43472, 43504, 43600, 44016,
      65296, 66720, 68912, 69734, 69872, 69942, 70096, 70384, 70736, 70864,
      71248, 71360, 71472, 71904, 72016, 72784, 73040, 73120, 92768, 92864,
      93008, 120782, 120792, 120802, 120812, 120822, 123200, 123632, 125264,
      130032]"

definition Py_UNICODE_TODECIMAL :: "nat \<Rightarrow> nat option" where
  "Py_UNICODE_TODECIMAL c =
     (case filter (\<lambda>z. z \<le> c \<and> c \<le> z + 9) decimal_zeros of
        [] \<Rightarrow> None
      | z # zs \<Rightarrow> Some (c - z))"

fun transform_loop :: "py_str \<Rightarrow> py_str" where
  "transform_loop [] = []"
| "transform_loop (ch # cs) =
     (if ch < 127 then ch # transform_loop cs
      else if Py_UNICODE_ISSPACE ch then 32 # transform_loop cs
      else (case Py_UNICODE_TODECIMAL ch of
              None \<Rightarrow> [63]
            | Some dec \<Rightarrow> (48 + dec) # transform_loop cs))"

definition TransformDecimalAndSpaceToASCII :: "py_str \<Rightarrow> py_str" where
  "TransformDecimalAndSpaceToASCII u =
     (if list_all (\<lambda>c. c < 128) u then u else transform_loop u)"

definition max_str_digits :: nat where
  "max_str_digits = 4300"

definition py_isdigit :: "nat \<Rightarrow> bool" where
  "py_isdigit c \<longleftrightarrow> 48 \<le> c \<and> c \<le> 57"

definition digit_value :: "nat \<Rightarrow> int" where
  "digit_value c = int c - 48"

text \<open>
  The scan over digits and underscores: the value so far, the number of digits so far,
  and whether the previous character was an underscore.
\<close>

fun scan_digits :: "int \<Rightarrow> nat \<Rightarrow> bool \<Rightarrow> py_str \<Rightarrow> (int \<times> nat \<times> py_str) option" where
  "scan_digits acc digits prev_us [] = (if prev_us then None else Some (acc, digits, []))"
| "scan_digits acc digits prev_us (c # cs) =
     (if c = 95 then (if prev_us then None else scan_digits acc digits True cs)
      else if py_isdigit c then scan_digits (10 * acc + digit_value c) (Suc digits) False cs
      else if prev_us then None
      else Some (acc, digits, c # cs))"

definition strip_sign :: "py_str \<Rightarrow> bool \<times> py_str" where
  "strip_sign s =
     (case s of
        [] \<Rightarrow> (False, [])
      | c # cs \<Rightarrow>
          if c = 43 then (False, cs)
          else if c = 45 then (True, cs)
          else (False, c # cs))"

definition PyLong_FromString :: "py_str \<Rightarrow> int option" where
  "PyLong_FromString s =
     (case strip_sign (dropWhile Py_ISSPACE s) of
        (neg, body) \<Rightarrow>
          (case body of
             [] \<Rightarrow> None
           | c # cs \<Rightarrow>
               if \<not> py_isdigit c then None
               else (case scan_digits 0 0 False body of
                       None \<Rightarrow> None
                     | Some (n, digits, rest) \<Rightarrow>
                         if max_str_digits < digits then None
                         else if dropWhile Py_ISSPACE rest = []
                         then Some (if neg then - n else n)
                         else None)))"

definition py_int :: "py_str \<Rightarrow> int option" where
  "py_int s = PyLong_FromString (TransformDecimalAndSpaceToASCII s)"

section \<open>The tag views\<close>

text \<open>
  \<open>bool(int(self.request.query_params.get('assigned_only', 0)))\<close>: the query parameter
  is the last value given for the key, a string, or it is absent (\<open>None\<close>), and then the
  default is the integer 0, which \<open>int\<close> returns as it is.
\<close>

definition assigned_only_flag :: "py_str option \<Rightarrow> error + bool" where
  "assigned_only_flag q =
     (case q of
        None \<Rightarrow> Inr False
      | Some s \<Rightarrow> (case py_int s of None \<Rightarrow> Inl ValueError | Some n \<Rightarrow> Inr (n \<noteq> 0)))"

text \<open>
  Modelled from the spec: the declaration of \<open>Tag\<close> is not among the sources. Its own
  columns are the identifier, the name and the owner. The name under which a query on
  tags reaches the projects that carry a tag is fixed by the declaration of
  \<open>Project.tags\<close>; it is the parameter \<open>rel\<close> below, and when the declaration names nothing
  it is the lower-cased name of the class that declares the relation.
\<close>

definition Tag_columns :: "string list" where
  "Tag_columns = [''id'', ''pk'', ''name'', ''user'', ''user_id'']"

definition default_related_query_name :: string where
  "default_related_query_name = ''project''"

text \<open>
  \<open>queryset.filter(<lookup>__isnull=False)\<close> on tags. A column of the table is never
  null, so the filter keeps every row; the relation to projects is an inner join with the
  join table, one row for each project that carries the tag; any other name cannot be
  resolved and raises \<open>FieldError\<close> when the filter is built.
\<close>

definition filter_isnull_False :: "string \<Rightarrow> string \<Rightarrow> db \<Rightarrow> tag list \<Rightarrow> error + tag list" where
  "filter_isnull_False rel lookup d queryset =
     (if lookup \<in> set Tag_columns then Inr queryset
      else if lookup = rel then
        Inr (concat (map (\<lambda>t. map (\<lambda>r. t) (filter (\<lambda>r. snd r = tag_id t) (project_tags_tbl d)))
                         queryset))
      else Inl FieldError)"

text \<open>
  \<open>order_by('-name')\<close>: names compare as lists of code points; \<open>distinct()\<close> drops
  repeated rows.
\<close>

definition order_by_name_desc :: "tag list \<Rightarrow> tag list" where
  "order_by_name_desc ts = rev (sort_key tag_name ts)"

definition BaseProjectAttrViewSet_get_queryset ::
  "string \<Rightarrow> db \<Rightarrow> user \<Rightarrow> py_str option \<Rightarrow> error + tag list" where
  "BaseProjectAttrViewSet_get_queryset rel d u q =
     (case assigned_only_flag q of
        Inl e \<Rightarrow> Inl e
      | Inr assigned_only \<Rightarrow>
          (case (if assigned_only then filter_isnull_False rel ''recipe'' d (tag_tbl d)
                 else Inr (tag_tbl d)) of
             Inl e \<Rightarrow> Inl e
           | Inr queryset \<Rightarrow>
               Inr (remdups (order_by_name_desc (filter (\<lambda>t. tag_user t = u) queryset)))))"

text \<open>\<open>TagSerializer\<close>: the fields \<open>id\<close> and \<open>name\<close>.\<close>

definition TagSerializer :: "tag \<Rightarrow> nat \<times> string" where
  "TagSerializer t = (tag_id t, tag_name t)"

definition TagViewSet_list ::
  "string \<Rightarrow> db \<Rightarrow> user \<Rightarrow> py_str option \<Rightarrow> error + (nat \<times> string) list" where
  "TagViewSet_list rel d u q =
     (case BaseProjectAttrViewSet_get_queryset rel d u q of
        Inl e \<Rightarrow> Inl e
      | Inr ts \<Rightarrow> Inr (map TagSerializer ts))"

text \<open>
  A value of the request body, as a field of a serializer sees it: the key is absent; or
  the value is one that the field's own checks reject (wrong type, blank, too long: the
  checks that the absent model declaration fixes); or it is accepted and converts to
  \<open>v\<close>.
\<close>

datatype 'a field_in = Absent | Invalid | Valid 'a

text \<open>
  \<open>Field.run_validation\<close> for a field that is not read-only and has no default: an
  absent key is skipped in a partial update and when the field is optional, and is an
  error when the field is required.
\<close>

definition run_validation :: "bool \<Rightarrow> bool \<Rightarrow> 'a field_in \<Rightarrow> error + 'a option" where
  "run_validation required partial x =
     (case x of
        Absent \<Rightarrow> if partial then Inr None else if required then Inl ValidationError else Inr None
      | Invalid \<Rightarrow> Inl ValidationError
      | Valid v \<Rightarrow> Inr (Some v))"

text \<open>
  \<open>CreateModelMixin.create\<close> with \<open>perform_create\<close>: the name is validated, the owner is
  the authenticated user, and the answer is the new tag in the shape of \<open>TagSerializer\<close>.
\<close>

definition TagViewSet_create ::
  "db \<Rightarrow> user \<Rightarrow> string field_in \<Rightarrow> error + ((nat \<times> string) \<times> db)" where
  "TagViewSet_create d u name_in =
     (case run_validation True False name_in of
        Inl e \<Rightarrow> Inl e
      | Inr None \<Rightarrow> Inl ValidationError
      | Inr (Some n) \<Rightarrow>
          (let t = \<lparr>tag_id = new_id (map tag_id (tag_tbl d)), tag_name = n, tag_user = u\<rparr>
           in Inr (TagSerializer t, d\<lparr>tag_tbl := tag_tbl d @ [t]\<rparr>)))"

section \<open>View sets and the router\<close>

text \<open>
  The actions of a view set are those of the mixins it inherits from; \<open>GenericViewSet\<close>
  itself has none. \<open>BaseProjectAttrViewSet\<close> lists \<open>ListModelMixin\<close> and
  \<open>CreateModelMixin\<close>; \<open>ModelViewSet\<close> is the framework's class with all five.
\<close>

datatype action = A_list | A_create | A_retrieve | A_update | A_partial_update | A_destroy

datatype mixin =
  ListModelMixin | CreateModelMixin | RetrieveModelMixin | UpdateModelMixin | DestroyModelMixin

fun mixin_actions :: "mixin \<Rightarrow> action list" where
  "mixin_actions ListModelMixin = [A_list]"
| "mixin_actions CreateModelMixin = [A_create]"
| "mixin_actions RetrieveModelMixin = [A_retrieve]"
| "mixin_actions UpdateModelMixin = [A_update, A_partial_update]"
| "mixin_actions DestroyModelMixin = [A_destroy]"

definition BaseProjectAttrViewSet_mixins :: "mixin list" where
  "BaseProjectAttrViewSet_mixins = [ListModelMixin, CreateModelMixin]"

definition ModelViewSet_mixins :: "mixin list" where
  "ModelViewSet_mixins =
     [CreateModelMixin, RetrieveModelMixin, UpdateModelMixin, DestroyModelMixin, ListModelMixin]"

definition TagViewSet_actions :: "action list" where
  "TagViewSet_actions = concat (map mixin_actions BaseProjectAttrViewSet_mixins)"

definition ProjectViewSet_actions :: "action list" where
  "ProjectViewSet_actions = concat (map mixin_actions ModelViewSet_mixins)"

text \<open>
  \<open>router.register\<close>: the router has a collection route and an item route for each
  registered view set. A route binds a method to an action only when the view set has
  the action; a route that binds nothing is not generated, so its URL resolves to
  nothing (not found), and a method that a generated route does not bind is not allowed.
\<close>

datatype http_method = GET | POST | PUT | PATCH | DELETE

datatype route = Collection | Item

fun route_mapping :: "route \<Rightarrow> (http_method \<times> action) list" where
  "route_mapping Collection = [(GET, A_list), (POST, A_create)]"
| "route_mapping Item =
     [(GET, A_retrieve), (PUT, A_update), (PATCH, A_partial_update), (DELETE, A_destroy)]"

definition get_method_map :: "action list \<Rightarrow> route \<Rightarrow> (http_method \<times> action) list" where
  "get_method_map actions r = filter (\<lambda>b. snd b \<in> set actions) (route_mapping r)"

definition resolve :: "action list \<Rightarrow> route \<Rightarrow> http_method \<Rightarrow> error + action" where
  "resolve actions r m =
     (case get_method_map actions r of
        [] \<Rightarrow> Inl NotFound
      | b # bs \<Rightarrow>
          (case map_of (b # bs) m of None \<Rightarrow> Inl MethodNotAllowed | Some a \<Rightarrow> Inr a))"

section \<open>Project serializers\<close>

datatype serializer_class = ProjectSerializer | ProjectDetailSerializer

text \<open>
  The two output shapes differ in the field \<open>tags\<close>: primary keys for
  \<open>ProjectSerializer\<close>, nested \<open>TagSerializer\<close> objects for \<open>ProjectDetailSerializer\<close>.
\<close>

datatype tags_repr = TagIds "nat list" | TagObjects "(nat \<times> string) list"

record project_repr =
  r_id :: nat
  r_title :: string
  r_description :: string
  r_tags :: tags_repr
  r_price :: decimal
  r_link :: string

text \<open>\<open>project.tags.all()\<close>: the tag rows joined to the rows of the join table of one project.\<close>

definition project_tags :: "db \<Rightarrow> nat \<Rightarrow> tag list" where
  "project_tags d pk =
     concat (map (\<lambda>r. filter (\<lambda>t. tag_id t = snd r) (tag_tbl d))
                 (filter (\<lambda>r. fst r = pk) (project_tags_tbl d)))"

definition to_representation :: "serializer_class \<Rightarrow> db \<Rightarrow> project \<Rightarrow> project_repr" where
  "to_representation cls d p =
     \<lparr>r_id = project_id p,
      r_title = title p,
      r_description = description p,
      r_tags = (case cls of
                  ProjectSerializer \<Rightarrow> TagIds (map tag_id (project_tags d (project_id p)))
                | ProjectDetailSerializer \<Rightarrow>
                    TagObjects (map TagSerializer (project_tags d (project_id p)))),
      r_price = price p,
      r_link = link p\<rparr>"

definition is_detail :: "project_repr \<Rightarrow> bool" where
  "is_detail r = (case r_tags r of TagObjects ts \<Rightarrow> True | TagIds ts \<Rightarrow> False)"

text \<open>
  The request body. A form (multipart or URL-encoded) arrives as a multi-valued
  dictionary, JSON as a plain one; the field \<open>tags\<close> reads the two differently.
\<close>

datatype encoding = HtmlForm | Json

record payload =
  encoding :: encoding
  title_in :: "string field_in"
  description_in :: "string field_in"
  tags_in :: "nat list field_in"
  price_in :: "decimal field_in"
  link_in :: "string field_in"

record validated =
  v_title :: "string option"
  v_description :: "string option"
  v_tags :: "nat list option"
  v_price :: "decimal option"
  v_link :: "string option"

text \<open>
  \<open>ManyRelatedField.get_value\<close>: in a form the list of values of the key is taken, which
  is empty when the key is absent, unless the update is partial; in JSON an absent key
  stays absent.
\<close>

definition tags_get_value :: "encoding \<Rightarrow> bool \<Rightarrow> nat list field_in \<Rightarrow> nat list field_in" where
  "tags_get_value enc partial x =
     (case enc of
        HtmlForm \<Rightarrow> (if x = Absent then (if partial then Absent else Valid []) else x)
      | Json \<Rightarrow> x)"

text \<open>
  \<open>PrimaryKeyRelatedField(many=True, queryset=Tag.objects.all())\<close>: each key is looked up
  among all tags, whoever owns them; a key of no tag is an error. The field has no
  \<open>required=False\<close>, so it is required, and an empty list is allowed.
\<close>

definition tags_to_internal_value :: "db \<Rightarrow> nat list \<Rightarrow> error + nat list" where
  "tags_to_internal_value d ts =
     (if list_all (\<lambda>t. t \<in> set (map tag_id (tag_tbl d))) ts then Inr ts
      else Inl ValidationError)"

definition tags_run_validation ::
  "db \<Rightarrow> encoding \<Rightarrow> bool \<Rightarrow> nat list field_in \<Rightarrow> error + nat list option" where
  "tags_run_validation d enc partial x =
     (case run_validation True partial (tags_get_value enc partial x) of
        Inl e \<Rightarrow> Inl e
      | Inr None \<Rightarrow> Inr None
      | Inr (Some ts) \<Rightarrow>
          (case tags_to_internal_value d ts of Inl e \<Rightarrow> Inl e | Inr ts' \<Rightarrow> Inr (Some ts')))"

text \<open>
  Modelled from the spec: which columns of \<open>Project\<close> may be left out is fixed by the
  absent model declaration; the specification calls \<open>link\<close> optional and no other field,
  and the tests create a project from title, description and price alone.

  \<open>Serializer.is_valid\<close>: every field of \<open>Meta.fields\<close> that can be written is validated;
  one error makes the whole body invalid.
\<close>

definition ProjectSerializer_is_valid :: "db \<Rightarrow> bool \<Rightarrow> payload \<Rightarrow> error + validated" where
  "ProjectSerializer_is_valid d partial pl =
     (case run_validation True partial (title_in pl) of
        Inl e \<Rightarrow> Inl e
      | Inr t \<Rightarrow>
     (case run_validation True partial (description_in pl) of
        Inl e \<Rightarrow> Inl e
      | Inr ds \<Rightarrow>
     (case tags_run_validation d (encoding pl) partial (tags_in pl) of
        Inl e \<Rightarrow> Inl e
      | Inr ts \<Rightarrow>
     (case run_validation True partial (price_in pl) of
        Inl e \<Rightarrow> Inl e
      | Inr pr \<Rightarrow>
     (case run_validation False partial (link_in pl) of
        Inl e \<Rightarrow> Inl e
      | Inr l \<Rightarrow>
          Inr \<lparr>v_title = t, v_description = ds, v_tags = ts, v_price = pr, v_link = l\<rparr>)))))"

text \<open>
  The related manager's \<open>set\<close>: links to tags that are not in the new list are removed,
  links that exist stay, and the tags of the list that are not linked yet are added.
\<close>

definition m2m_set :: "nat \<Rightarrow> nat list \<Rightarrow> (nat \<times> nat) list \<Rightarrow> (nat \<times> nat) list" where
  "m2m_set pk ts rows =
     filter (\<lambda>r. fst r \<noteq> pk \<or> snd r \<in> set ts) rows
     @ map (Pair pk) (filter (\<lambda>t. (pk, t) \<notin> set rows) (remdups ts))"

definition set_tags :: "nat \<Rightarrow> nat list option \<Rightarrow> db \<Rightarrow> db" where
  "set_tags pk ts d =
     (case ts of
        None \<Rightarrow> d
      | Some l \<Rightarrow> d\<lparr>project_tags_tbl := m2m_set pk l (project_tags_tbl d)\<rparr>)"

text \<open>
  \<open>ModelSerializer.create\<close> with \<open>serializer.save(user=self.request.user)\<close>: the row is
  inserted with the validated columns and the authenticated user, then the tags are set.
  A column that was not validated takes the column's default; for the required ones
  validation leaves no such case.
\<close>

definition ModelSerializer_create :: "db \<Rightarrow> user \<Rightarrow> validated \<Rightarrow> db \<times> project" where
  "ModelSerializer_create d u v =
     (let p = \<lparr>project_id = new_id (map project_id (project_tbl d)),
               title = (case v_title v of Some s \<Rightarrow> s | None \<Rightarrow> []),
               description = (case v_description v of Some s \<Rightarrow> s | None \<Rightarrow> []),
               price = (case v_price v of Some n \<Rightarrow> n | None \<Rightarrow> 0),
               link = (case v_link v of Some s \<Rightarrow> s | None \<Rightarrow> []),
               project_user = u\<rparr>
      in (set_tags (project_id p) (v_tags v) (d\<lparr>project_tbl := project_tbl d @ [p]\<rparr>), p))"

text \<open>
  \<open>ModelSerializer.update\<close>: each validated column is assigned, the row is saved, then
  the tags are set when they were validated.
\<close>

definition ModelSerializer_update :: "db \<Rightarrow> project \<Rightarrow> validated \<Rightarrow> db \<times> project" where
  "ModelSerializer_update d p v =
     (let p' = p\<lparr>title := (case v_title v of Some s \<Rightarrow> s | None \<Rightarrow> title p),
                 description := (case v_description v of Some s \<Rightarrow> s | None \<Rightarrow> description p),
                 price := (case v_price v of Some n \<Rightarrow> n | None \<Rightarrow> price p),
                 link := (case v_link v of Some s \<Rightarrow> s | None \<Rightarrow> link p)\<rparr>
      in (set_tags (project_id p) (v_tags v)
            (d\<lparr>project_tbl :=
                 map (\<lambda>r. if project_id r = project_id p then p' else r) (project_tbl d)\<rparr>),
          p'))"

section \<open>The project views\<close>

definition ProjectViewSet_get_queryset :: "db \<Rightarrow> user \<Rightarrow> project list" where
  "ProjectViewSet_get_queryset d u = filter (\<lambda>p. project_user p = u) (project_tbl d)"

definition get_serializer_class :: "action \<Rightarrow> serializer_class" where
  "get_serializer_class a =
     (if a = A_retrieve then ProjectDetailSerializer else ProjectSerializer)"

text \<open>\<open>get_object\<close>: the row of the view's query set with the primary key of the URL, or 404.\<close>

definition get_object :: "db \<Rightarrow> user \<Rightarrow> nat \<Rightarrow> error + project" where
  "get_object d u pk =
     (case filter (\<lambda>p. project_id p = pk) (ProjectViewSet_get_queryset d u) of
        [] \<Rightarrow> Inl NotFound
      | p # ps \<Rightarrow> Inr p)"

definition ProjectViewSet_list :: "db \<Rightarrow> user \<Rightarrow> project_repr list" where
  "ProjectViewSet_list d u =
     map (to_representation (get_serializer_class A_list) d) (ProjectViewSet_get_queryset d u)"

definition ProjectViewSet_retrieve :: "db \<Rightarrow> user \<Rightarrow> nat \<Rightarrow> error + project_repr" where
  "ProjectViewSet_retrieve d u pk =
     (case get_object d u pk of
        Inl e \<Rightarrow> Inl e
      | Inr p \<Rightarrow> Inr (to_representation (get_serializer_class A_retrieve) d p))"

definition ProjectViewSet_create :: "db \<Rightarrow> user \<Rightarrow> payload \<Rightarrow> error + (project_repr \<times> db)" where
  "ProjectViewSet_create d u pl =
     (case ProjectSerializer_is_valid d False pl of
        Inl e \<Rightarrow> Inl e
      | Inr v \<Rightarrow>
          (case ModelSerializer_create d u v of
             (d', p) \<Rightarrow> Inr (to_representation (get_serializer_class A_create) d' p, d')))"

text \<open>\<open>update\<close> (PUT, \<open>partial = False\<close>) and \<open>partial_update\<close> (PATCH, \<open>partial = True\<close>).\<close>

definition ProjectViewSet_update ::
  "bool \<Rightarrow> db \<Rightarrow> user \<Rightarrow> nat \<Rightarrow> payload \<Rightarrow> error + (project_repr \<times> db)" where
  "ProjectViewSet_update partial d u pk pl =
     (case get_object d u pk of
        Inl e \<Rightarrow> Inl e
      | Inr p \<Rightarrow>
          (case ProjectSerializer_is_valid d partial pl of
             Inl e \<Rightarrow> Inl e
           | Inr v \<Rightarrow>
               (case ModelSerializer_update d p v of
                  (d', p') \<Rightarrow>
                    Inr (to_representation
                           (get_serializer_class (if partial then A_partial_update else A_update))
                           d' p',
                         d'))))"

text \<open>Deleting a project deletes its row and its rows of the join table.\<close>

definition delete_project :: "db \<Rightarrow> nat \<Rightarrow> db" where
  "delete_project d pk =
     d\<lparr>project_tbl := filter (\<lambda>r. project_id r \<noteq> pk) (project_tbl d),
       project_tags_tbl := filter (\<lambda>r. fst r \<noteq> pk) (project_tags_tbl d)\<rparr>"

definition ProjectViewSet_destroy :: "db \<Rightarrow> user \<Rightarrow> nat \<Rightarrow> error + db" where
  "ProjectViewSet_destroy d u pk =
     (case get_object d u pk of
        Inl e \<Rightarrow> Inl e
      | Inr p \<Rightarrow> Inr (delete_project d (project_id p)))"

text \<open>The tag references of a project, as a set.\<close>

definition tag_ids_of :: "db \<Rightarrow> nat \<Rightarrow> nat set" where
  "tag_ids_of d pk = set (map snd (filter (\<lambda>r. fst r = pk) (project_tags_tbl d)))"

section \<open>Example data\<close>

text \<open>
  Two users, 1 and 2. User 1 owns the tags 1 and 2 and the project 1, which carries tag 1;
  user 2 owns tag 3 and project 2, which carries tag 3. The request bodies are those of
  the repository's tests: a full update without tags, sent as JSON and as a form; a
  creation without tags; a creation with a tag; a partial update with tags alone.
\<close>

definition ex_db :: db where
  "ex_db =
     \<lparr>tag_tbl = [\<lparr>tag_id = 1, tag_name = ''Internal'', tag_user = 1\<rparr>,
                 \<lparr>tag_id = 2, tag_name = ''External'', tag_user = 1\<rparr>,
                 \<lparr>tag_id = 3, tag_name = ''Main project'', tag_user = 2\<rparr>],
      project_tbl = [\<lparr>project_id = 1, title = ''Sample project'',
                       description = ''This is a sample project'', price = 500, link = [],
                       project_user = 1\<rparr>,
                     \<lparr>project_id = 2, title = ''Other project'',
                       description = ''Of the second user'', price = 500, link = [],
                       project_user = 2\<rparr>],
      project_tags_tbl = [(1, 1), (2, 3)]\<rparr>"

definition ex_project :: project where
  "ex_project = \<lparr>project_id = 1, title = ''Sample project'',
                       description = ''This is a sample project'', price = 500, link = [],
                       project_user = 1\<rparr>"

definition ex_tag :: tag where
  "ex_tag = \<lparr>tag_id = 1, tag_name = ''Internal'', tag_user = 1\<rparr>"

definition ex_put :: payload where
  "ex_put =
     \<lparr>encoding = Json, title_in = Valid ''Massive RPG'',
      description_in = Valid ''Massive RPG fantasy themed'', tags_in = Absent,
      price_in = Valid 500000, link_in = Absent\<rparr>"

definition empty_db :: db where
  "empty_db = \<lparr>tag_tbl = [], project_tbl = [], project_tags_tbl = []\<rparr>"

definition ex_post :: payload where
  "ex_post =
     \<lparr>encoding = HtmlForm, title_in = Valid ''Django Project'',
      description_in = Valid ''A little Django project about projects'', tags_in = Absent,
      price_in = Valid 500, link_in = Absent\<rparr>"

definition after_create :: "db \<Rightarrow> user \<Rightarrow> payload \<Rightarrow> db" where
  "after_create d u pl = (case ProjectViewSet_create d u pl of Inl e \<Rightarrow> d | Inr (r, d') \<Rightarrow> d')"

definition ex_post_tags :: payload where
  "ex_post_tags =
     \<lparr>encoding = Json, title_in = Valid ''Videogame'',
      description_in = Valid ''A massive open world videogame'', tags_in = Valid [1],
      price_in = Valid 500, link_in = Absent\<rparr>"

definition ex_patch :: payload where
  "ex_patch =
     \<lparr>encoding = Json, title_in = Absent, description_in = Absent, tags_in = Valid [2],
      price_in = Absent, link_in = Absent\<rparr>"

definition ex_post_unknown_tag :: payload where
  "ex_post_unknown_tag = ex_post_tags\<lparr>tags_in := Valid [9]\<rparr>"

definition ex_put_form :: payload where
  "ex_put_form = ex_put\<lparr>encoding := HtmlForm\<rparr>"

text \<open>A value of the query parameter with 4301 digits, all zero.\<close>

definition ex_long_zeros :: py_str where
  "ex_long_zeros = replicate (Suc 4300) 48"

section \<open>Basic facts\<close>

lemma get_object_Inr:
  "get_object d u pk = Inr p \<Longrightarrow> p \<in> set (project_tbl d) \<and> project_user p = u \<and> project_id p = pk"
proof -
  assume h: "get_object d u pk = Inr p"
  then obtain ps where "filter (\<lambda>p. project_id p = pk) (ProjectViewSet_get_queryset d u) = p # ps"
    by (auto simp: get_object_def split: list.splits)
  then have "p \<in> set (filter (\<lambda>p. project_id p = pk) (ProjectViewSet_get_queryset d u))"
    by simp
  then show ?thesis
    by (simp add: ProjectViewSet_get_queryset_def)
qed

lemma get_object_NotFound_iff:
  "get_object d u pk = Inl e \<longleftrightarrow>
     e = NotFound \<and> (\<forall>p \<in> set (project_tbl d). project_user p = u \<longrightarrow> project_id p \<noteq> pk)"
proof (cases "filter (\<lambda>p. project_id p = pk) (ProjectViewSet_get_queryset d u)")
  case Nil
  then have "\<forall>p \<in> set (project_tbl d). project_user p = u \<longrightarrow> project_id p \<noteq> pk"
    by (auto simp: ProjectViewSet_get_queryset_def filter_empty_conv)
  with Nil show ?thesis
    by (auto simp: get_object_def)
next
  case (Cons x xs)
  then have "x \<in> set (filter (\<lambda>p. project_id p = pk) (ProjectViewSet_get_queryset d u))"
    by simp
  then have "x \<in> set (project_tbl d) \<and> project_user x = u \<and> project_id x = pk"
    by (simp add: ProjectViewSet_get_queryset_def)
  with Cons show ?thesis
    by (auto simp: get_object_def)
qed

lemma wf_db_unique_id:
  "wf_db d \<Longrightarrow> p \<in> set (project_tbl d) \<Longrightarrow> p' \<in> set (project_tbl d) \<Longrightarrow>
   project_id p = project_id p' \<Longrightarrow> p = p'"
  by (auto simp: wf_db_def distinct_map inj_on_def)

lemma get_object_other:
  "wf_db d \<Longrightarrow> p \<in> set (project_tbl d) \<Longrightarrow> project_user p \<noteq> u \<Longrightarrow>
   get_object d u (project_id p) = Inl NotFound"
  unfolding get_object_NotFound_iff using wf_db_unique_id by blast

lemma get_object_delete_project:
  "get_object (delete_project d pk) u pk = Inl NotFound"
  unfolding get_object_NotFound_iff by (simp add: delete_project_def)

lemma resolve_tag_item: "resolve TagViewSet_actions Item m = Inl NotFound"
  by (simp add: resolve_def get_method_map_def TagViewSet_actions_def BaseProjectAttrViewSet_mixins_def)

lemma tag_queryset_owner:
  "BaseProjectAttrViewSet_get_queryset rel d u q = Inr ts \<Longrightarrow> t \<in> set ts \<Longrightarrow>
   t \<in> set (tag_tbl d) \<and> tag_user t = u"
  by (auto simp: BaseProjectAttrViewSet_get_queryset_def order_by_name_desc_def filter_isnull_False_def
           split: sum.splits if_splits)

lemma sorted_wrt_remdups: "sorted_wrt P xs \<Longrightarrow> sorted_wrt P (remdups xs)"
  by (induction xs) auto

lemma order_by_name_desc_sorted:
  "sorted_wrt (\<lambda>x y. tag_name y \<le> tag_name x) (order_by_name_desc ts)"
proof -
  have "sorted (map tag_name (sort_key tag_name ts))"
    by (rule sorted_sort_key)
  then have "sorted_wrt (\<lambda>x y. tag_name x \<le> tag_name y) (sort_key tag_name ts)"
    by (simp add: sorted_wrt_map)
  then show ?thesis
    by (simp add: order_by_name_desc_def sorted_wrt_rev)
qed

lemma set_order_by_name_desc: "set (order_by_name_desc ts) = set ts"
  by (simp add: order_by_name_desc_def)

lemma tag_queryset_sorted:
  assumes "BaseProjectAttrViewSet_get_queryset rel d u q = Inr ts"
  shows "sorted_wrt (\<lambda>x y. tag_name y \<le> tag_name x) ts \<and> distinct ts"
proof -
  from assms obtain qs where "ts = remdups (order_by_name_desc (filter (\<lambda>t. tag_user t = u) qs))"
    by (auto simp: BaseProjectAttrViewSet_get_queryset_def split: sum.splits)
  then show ?thesis
    by (simp add: sorted_wrt_remdups order_by_name_desc_sorted)
qed

lemma tag_queryset_no_parameter:
  "BaseProjectAttrViewSet_get_queryset rel d u None =
     Inr (remdups (order_by_name_desc (filter (\<lambda>t. tag_user t = u) (tag_tbl d))))"
  by (simp add: BaseProjectAttrViewSet_get_queryset_def assigned_only_flag_def)

lemma TagViewSet_list_flag:
  "TagViewSet_list rel d u (Some s) =
     (case py_int s of
        None \<Rightarrow> Inl ValueError
      | Some n \<Rightarrow>
          (case (if n \<noteq> 0 then filter_isnull_False rel ''recipe'' d (tag_tbl d)
                 else Inr (tag_tbl d)) of
             Inl e \<Rightarrow> Inl e
           | Inr queryset \<Rightarrow>
               Inr (map TagSerializer
                      (remdups (order_by_name_desc (filter (\<lambda>t. tag_user t = u) queryset))))))"
  by (simp add: TagViewSet_list_def BaseProjectAttrViewSet_get_queryset_def assigned_only_flag_def
      split: option.splits sum.splits)

lemma TagViewSet_list_None:
  "TagViewSet_list rel d u None =
     Inr (map TagSerializer
            (remdups (order_by_name_desc (filter (\<lambda>t. tag_user t = u) (tag_tbl d)))))"
  by (simp add: TagViewSet_list_def tag_queryset_no_parameter)

lemma py_int_1: "py_int (codepoints ''1'') = Some 1"
  by code_simp

lemma scan_digits_zeros:
  "scan_digits 0 k False (replicate n 48) = Some (0, k + n, [])"
proof (induction n arbitrary: k)
  case 0
  show ?case by simp
next
  case (Suc n)
  have "scan_digits 0 k False (replicate (Suc n) 48) =
          scan_digits 0 (Suc k) False (replicate n 48)"
    by (simp add: py_isdigit_def digit_value_def)
  then show ?case by (simp add: Suc)
qed

lemma py_int_zeros:
  "py_int (replicate (Suc n) 48) = (if max_str_digits < Suc n then None else Some 0)"
proof -
  define xs :: py_str where "xs = replicate (Suc n) 48"
  have ascii: "list_all (\<lambda>c. c < 128) xs"
    by (simp add: xs_def list_all_iff)
  have ns: "dropWhile Py_ISSPACE xs = xs"
    by (simp add: xs_def Py_ISSPACE_def)
  have sg: "strip_sign xs = (False, xs)"
    by (simp add: xs_def strip_sign_def)
  have sc: "scan_digits 0 0 False xs = Some (0, Suc n, [])"
    unfolding xs_def using scan_digits_zeros [of 0 "Suc n"] by simp
  have hd: "xs = 48 # replicate n 48"
    by (simp add: xs_def)
  have "(case xs of [] \<Rightarrow> None
         | c # cs \<Rightarrow> if \<not> py_isdigit c then None
             else (case scan_digits 0 0 False xs of
                     None \<Rightarrow> None
                   | Some (n, digits, rest) \<Rightarrow>
                       if max_str_digits < digits then None
                       else if dropWhile Py_ISSPACE rest = []
                       then Some (if False then - n else n)
                       else None)) =
        (if max_str_digits < Suc n then None else Some 0)"
    unfolding sc by (simp add: hd py_isdigit_def)
  then have "PyLong_FromString xs = (if max_str_digits < Suc n then None else Some 0)"
    unfolding PyLong_FromString_def ns sg by simp
  then have "py_int xs = (if max_str_digits < Suc n then None else Some 0)"
    using ascii by (simp add: py_int_def TransformDecimalAndSpaceToASCII_def)
  then show ?thesis by (simp only: xs_def)
qed

lemma set_join_tags:
  "set (concat (map (\<lambda>t. map (\<lambda>r. t) (filter (\<lambda>r. snd r = tag_id t) rows)) ts)) =
     {t \<in> set ts. tag_id t \<in> snd ` set rows}"
proof (induction ts)
  case Nil
  show ?case by simp
next
  case (Cons t ts)
  have "set (map (\<lambda>r. t) (filter (\<lambda>r. snd r = tag_id t) rows)) =
          (if tag_id t \<in> snd ` set rows then {t} else {})"
    by (auto simp: image_iff)
  with Cons show ?case by auto
qed

lemma assigned_only_when_resolved:
  "\<exists>ts. BaseProjectAttrViewSet_get_queryset ''recipe'' d u (Some (codepoints ''1'')) = Inr ts
        \<and> distinct ts
        \<and> set ts = {t \<in> set (tag_tbl d). tag_user t = u \<and> tag_id t \<in> snd ` set (project_tags_tbl d)}"
proof -
  define joined where
    "joined = concat (map (\<lambda>t. map (\<lambda>r. t) (filter (\<lambda>r. snd r = tag_id t) (project_tags_tbl d)))
                          (tag_tbl d))"
  have j: "set joined = {t \<in> set (tag_tbl d). tag_id t \<in> snd ` set (project_tags_tbl d)}"
    unfolding joined_def by (rule set_join_tags)
  have "BaseProjectAttrViewSet_get_queryset ''recipe'' d u (Some (codepoints ''1'')) =
          Inr (remdups (order_by_name_desc (filter (\<lambda>t. tag_user t = u) joined)))"
    by (simp add: BaseProjectAttrViewSet_get_queryset_def assigned_only_flag_def py_int_1
        filter_isnull_False_def Tag_columns_def joined_def)
  moreover have "set (remdups (order_by_name_desc (filter (\<lambda>t. tag_user t = u) joined))) =
      {t \<in> set (tag_tbl d). tag_user t = u \<and> tag_id t \<in> snd ` set (project_tags_tbl d)}"
    using j by (auto simp: set_order_by_name_desc)
  ultimately show ?thesis by simp
qed

lemma resolve_tag_collection:
  "resolve TagViewSet_actions Collection GET = Inr A_list
   \<and> resolve TagViewSet_actions Collection POST = Inr A_create"
  by (simp add: resolve_def get_method_map_def TagViewSet_actions_def BaseProjectAttrViewSet_mixins_def)

lemma tags_run_validation_Valid:
  "tags_run_validation d enc partial (Valid ts) =
     (if set ts \<subseteq> tag_id ` set (tag_tbl d) then Inr (Some ts) else Inl ValidationError)"
  by (cases enc)
     (auto simp: tags_run_validation_def tags_get_value_def run_validation_def
        tags_to_internal_value_def list_all_iff)

lemma tags_run_validation_Absent:
  "tags_run_validation d enc partial Absent =
     (if partial then Inr None
      else (case enc of HtmlForm \<Rightarrow> Inr (Some []) | Json \<Rightarrow> Inl ValidationError))"
  by (cases enc)
     (auto simp: tags_run_validation_def tags_get_value_def run_validation_def
        tags_to_internal_value_def)

lemma run_validation_error: "run_validation required partial x = Inl e \<Longrightarrow> e = ValidationError"
  by (auto simp: run_validation_def split: field_in.splits if_splits)

lemma tags_run_validation_error:
  "tags_run_validation d enc partial x = Inl e \<Longrightarrow> e = ValidationError"
  by (auto simp: tags_run_validation_def tags_to_internal_value_def
      dest: run_validation_error split: sum.splits option.splits if_splits)

lemma is_valid_error: "ProjectSerializer_is_valid d partial pl = Inl e \<Longrightarrow> e = ValidationError"
  by (auto simp: ProjectSerializer_is_valid_def
      dest: run_validation_error tags_run_validation_error split: sum.splits)

lemma is_valid_tags:
  "ProjectSerializer_is_valid d partial pl = Inr v \<Longrightarrow>
   tags_run_validation d (encoding pl) partial (tags_in pl) = Inr (v_tags v)"
  by (auto simp: ProjectSerializer_is_valid_def split: sum.splits)

lemma is_valid_tags_error:
  assumes "tags_run_validation d (encoding pl) partial (tags_in pl) = Inl e"
  shows "ProjectSerializer_is_valid d partial pl = Inl ValidationError"
proof (cases "ProjectSerializer_is_valid d partial pl")
  case (Inl e')
  then show ?thesis using is_valid_error by blast
next
  case (Inr v)
  then show ?thesis using is_valid_tags [OF Inr] assms by simp
qed

lemma m2m_set_this:
  "snd ` {r \<in> set (m2m_set pk ts rows). fst r = pk} = set ts"
  by (force simp: m2m_set_def)

lemma m2m_set_other:
  assumes "pk' \<noteq> pk"
  shows "filter (\<lambda>r. fst r = pk') (m2m_set pk ts rows) = filter (\<lambda>r. fst r = pk') rows"
proof -
  have 1: "filter (\<lambda>r. fst r = pk') (map (Pair pk) xs) = []" for xs :: "nat list"
    using assms by (induction xs) auto
  have 2: "filter (\<lambda>r. fst r = pk') (filter (\<lambda>r. fst r \<noteq> pk \<or> snd r \<in> set ts) rows) =
           filter (\<lambda>r. fst r = pk') rows"
    using assms by (induction rows) auto
  show ?thesis
    unfolding m2m_set_def filter_append 1 2 by simp
qed

lemma tag_ids_of_set_tags:
  "tag_ids_of (set_tags pk (Some ts) d) pk = set ts"
  by (simp add: tag_ids_of_def set_tags_def m2m_set_this)

lemma tag_ids_of_set_tags_other:
  assumes "pk' \<noteq> pk"
  shows "tag_ids_of (set_tags pk v d) pk' = tag_ids_of d pk'"
proof (cases v)
  case None
  then show ?thesis by (simp add: set_tags_def)
next
  case (Some ts)
  then have "project_tags_tbl (set_tags pk v d) = m2m_set pk ts (project_tags_tbl d)"
    by (simp add: set_tags_def)
  then show ?thesis
    unfolding tag_ids_of_def by (simp only: m2m_set_other [OF assms])
qed

lemma set_tags_tables:
  "project_tbl (set_tags pk v d) = project_tbl d \<and> tag_tbl (set_tags pk v d) = tag_tbl d"
  by (cases v) (simp_all add: set_tags_def)

lemma tag_ids_of_project_tbl_update [simp]:
  "tag_ids_of (d\<lparr>project_tbl := x\<rparr>) pk = tag_ids_of d pk"
  by (simp add: tag_ids_of_def)

lemma set_tags_None [simp]: "set_tags pk None d = d"
  by (simp add: set_tags_def)

lemma create_Inr:
  "ProjectViewSet_create d u pl = Inr (r, d') \<Longrightarrow>
   \<exists>v. ProjectSerializer_is_valid d False pl = Inr v
      \<and> d' = fst (ModelSerializer_create d u v)
      \<and> r = to_representation ProjectSerializer d' (snd (ModelSerializer_create d u v))"
  by (auto simp: ProjectViewSet_create_def get_serializer_class_def split: sum.splits prod.splits)

lemma update_Inr:
  "ProjectViewSet_update partial d u pk pl = Inr (r, d') \<Longrightarrow>
   \<exists>p v. get_object d u pk = Inr p \<and> ProjectSerializer_is_valid d partial pl = Inr v
      \<and> d' = fst (ModelSerializer_update d p v)
      \<and> r = to_representation ProjectSerializer d' (snd (ModelSerializer_update d p v))"
  by (auto simp: ProjectViewSet_update_def get_serializer_class_def split: sum.splits prod.splits)

lemma update_Inl:
  "ProjectViewSet_update partial d u pk pl = Inl e \<Longrightarrow> e = NotFound \<or> e = ValidationError"
  by (auto simp: ProjectViewSet_update_def get_object_NotFound_iff dest: is_valid_error
      split: sum.splits prod.splits)

lemma map_tag_id_project_tags:
  "set (map tag_id (project_tags d pk)) = tag_ids_of d pk \<inter> tag_id ` set (tag_tbl d)"
  by (force simp: project_tags_def tag_ids_of_def)

lemma get_object_error: "get_object d u pk = Inl e \<Longrightarrow> e = NotFound"
  by (simp add: get_object_NotFound_iff)

lemma update_tables:
  "tag_tbl (fst (ModelSerializer_update d p v)) = tag_tbl d"
  by (simp add: ModelSerializer_update_def Let_def set_tags_tables)

lemma create_tables:
  "tag_tbl (fst (ModelSerializer_create d u v)) = tag_tbl d"
  by (simp add: ModelSerializer_create_def Let_def set_tags_tables)

lemma update_tag_ids:
  "tag_ids_of (fst (ModelSerializer_update d p v)) (project_id p) =
     (case v_tags v of None \<Rightarrow> tag_ids_of d (project_id p) | Some ts \<Rightarrow> set ts)"
  by (cases "v_tags v") (simp_all add: ModelSerializer_update_def Let_def tag_ids_of_set_tags)

lemma update_tag_ids_other:
  "pk' \<noteq> project_id p \<Longrightarrow>
   tag_ids_of (fst (ModelSerializer_update d p v)) pk' = tag_ids_of d pk'"
  by (simp add: ModelSerializer_update_def Let_def tag_ids_of_set_tags_other)

lemma update_snd_id: "project_id (snd (ModelSerializer_update d p v)) = project_id p"
  by (simp add: ModelSerializer_update_def Let_def)

lemma create_tag_ids:
  "tag_ids_of (fst (ModelSerializer_create d u v))
      (project_id (snd (ModelSerializer_create d u v))) =
     (case v_tags v of
        None \<Rightarrow> tag_ids_of d (new_id (map project_id (project_tbl d)))
      | Some ts \<Rightarrow> set ts)"
  by (cases "v_tags v") (simp_all add: ModelSerializer_create_def Let_def tag_ids_of_set_tags)

lemma r_id_to_representation [simp]: "r_id (to_representation cls d p) = project_id p"
  by (simp add: to_representation_def)

lemma r_tags_ProjectSerializer:
  "r_tags (to_representation ProjectSerializer d p) = TagIds (map tag_id (project_tags d (project_id p)))"
  by (simp add: to_representation_def)

lemma fold_max_ge: "a \<le> fold max ids (a::nat)"
  by (induction ids arbitrary: a) (auto intro: order_trans [OF max.cobounded2])

lemma fold_max_upper: "x \<in> set ids \<Longrightarrow> x \<le> fold max ids (a::nat)"
proof (induction ids arbitrary: a)
  case Nil
  then show ?case by simp
next
  case (Cons y ys)
  show ?case
  proof (cases "x = y")
    case True
    have "max y a \<le> fold max ys (max y a)" by (rule fold_max_ge)
    then show ?thesis using True by simp
  next
    case False
    with Cons show ?thesis by simp
  qed
qed

lemma new_id_fresh: "new_id ids \<notin> set ids"
proof
  assume "new_id ids \<in> set ids"
  then have "new_id ids \<le> fold max ids 0" by (rule fold_max_upper)
  then show False by (simp add: new_id_def)
qed

lemma wf_db_empty: "wf_db empty_db"
  by (simp add: wf_db_def empty_db_def)

lemma wf_db_set_tags: "wf_db (set_tags pk v d) = wf_db d"
  by (simp add: wf_db_def set_tags_tables)

lemma wf_db_project_create:
  assumes "wf_db d" and "ProjectViewSet_create d u pl = Inr (r, d')"
  shows "wf_db d'"
proof -
  from create_Inr [OF assms(2)] obtain v where d': "d' = fst (ModelSerializer_create d u v)"
    by blast
  have "new_id (map project_id (project_tbl d)) \<notin> set (map project_id (project_tbl d))"
    by (rule new_id_fresh)
  then show ?thesis
    using assms(1) by (simp add: d' ModelSerializer_create_def Let_def wf_db_set_tags) (simp add: wf_db_def)
qed

lemma map_project_id_update:
  "project_id p' = project_id p \<Longrightarrow>
   map project_id (map (\<lambda>r. if project_id r = project_id p then p' else r) tbl) =
   map project_id tbl"
  by (induction tbl) auto

lemma update_project_tbl:
  "project_tbl (fst (ModelSerializer_update d p v)) =
     map (\<lambda>r. if project_id r = project_id p then snd (ModelSerializer_update d p v) else r)
         (project_tbl d)"
  by (simp add: ModelSerializer_update_def Let_def set_tags_tables)

lemma wf_db_project_update:
  assumes "wf_db d" and "ProjectViewSet_update partial d u pk pl = Inr (r, d')"
  shows "wf_db d'"
proof -
  from update_Inr [OF assms(2)] obtain p v where d': "d' = fst (ModelSerializer_update d p v)"
    by blast
  have "map project_id (project_tbl d') = map project_id (project_tbl d)"
    unfolding d' update_project_tbl by (rule map_project_id_update) (rule update_snd_id)
  moreover have "tag_tbl d' = tag_tbl d"
    by (simp add: d' update_tables)
  ultimately show ?thesis
    using assms(1) by (simp add: wf_db_def)
qed

lemma wf_db_project_destroy:
  assumes "wf_db d" and "ProjectViewSet_destroy d u pk = Inr d'"
  shows "wf_db d'"
proof -
  have "\<exists>k. d' = delete_project d k"
    using assms(2) by (cases "get_object d u pk") (auto simp: ProjectViewSet_destroy_def)
  then show ?thesis
    using assms(1) by (auto simp: wf_db_def delete_project_def distinct_map_filter)
qed

lemma wf_db_tag_create:
  assumes "wf_db d" and "TagViewSet_create d u name_in = Inr (r, d')"
  shows "wf_db d'"
proof -
  have "new_id (map tag_id (tag_tbl d)) \<notin> set (map tag_id (tag_tbl d))"
    by (rule new_id_fresh)
  then show ?thesis
    using assms
    by (auto simp: TagViewSet_create_def Let_def wf_db_def split: sum.splits option.splits)
qed

lemma map_replace_same:
  assumes "distinct (map project_id tbl)" and "p \<in> set tbl"
  shows "map (\<lambda>r. if project_id r = project_id p then p else r) tbl = tbl"
proof -
  have "(if project_id r = project_id p then p else r) = r" if "r \<in> set tbl" for r
    using assms that by (auto simp: distinct_map inj_on_def)
  then show ?thesis by (simp add: map_idI)
qed

lemma is_detail_to_representation:
  "is_detail (to_representation cls d p) \<longleftrightarrow> cls = ProjectDetailSerializer"
  by (cases cls) (simp_all add: is_detail_def to_representation_def)

section \<open>Ownership\<close>

text \<open>
  Claim C1. For two distinct users \<open>a\<close> and \<open>b\<close> and a store with unique primary keys: a
  project of \<open>a\<close> is not in the query set of \<open>b\<close> and its key is not in the project list
  of \<open>b\<close>; retrieve, update (full or partial, any body) and delete by \<open>b\<close> at its key end
  in \<open>NotFound\<close>, exactly as they do in the store from which the project has been
  deleted; a tag of \<open>a\<close> is in no tag list of \<open>b\<close>, whatever the query parameter; an
  item-level request on a tag resolves to nothing for every method. \<open>NotFound\<close> is the
  status 404, not 403. The statement is about the listed resource and about these three
  operations on the record itself; what a reference to a tag of another user does in a
  project body is the matter of claim C2.
\<close>

theorem ownership_isolation:
  assumes "wf_db d" and "a \<noteq> b"
  shows "(p \<in> set (project_tbl d) \<and> project_user p = a \<longrightarrow>
            p \<notin> set (ProjectViewSet_get_queryset d b)
          \<and> project_id p \<notin> set (map r_id (ProjectViewSet_list d b))
          \<and> ProjectViewSet_retrieve d b (project_id p) = Inl NotFound
          \<and> ProjectViewSet_update partial d b (project_id p) pl = Inl NotFound
          \<and> ProjectViewSet_destroy d b (project_id p) = Inl NotFound
          \<and> ProjectViewSet_retrieve (delete_project d (project_id p)) b (project_id p) = Inl NotFound
          \<and> ProjectViewSet_update partial (delete_project d (project_id p)) b (project_id p) pl = Inl NotFound
          \<and> ProjectViewSet_destroy (delete_project d (project_id p)) b (project_id p) = Inl NotFound)
       \<and> (t \<in> set (tag_tbl d) \<and> tag_user t = a \<longrightarrow>
            (\<forall>ts. BaseProjectAttrViewSet_get_queryset rel d b q = Inr ts \<longrightarrow> t \<notin> set ts)
          \<and> (\<forall>l. TagViewSet_list rel d b q = Inr l \<longrightarrow> tag_id t \<notin> set (map fst l)))
       \<and> (\<forall>m. resolve TagViewSet_actions Item m = Inl NotFound)
       \<and> status_code NotFound = 404 \<and> status_code NotFound \<noteq> HTTP_403_FORBIDDEN"
proof -
  have proj: "p \<notin> set (ProjectViewSet_get_queryset d b)
          \<and> project_id p \<notin> set (map r_id (ProjectViewSet_list d b))
          \<and> ProjectViewSet_retrieve d b (project_id p) = Inl NotFound
          \<and> ProjectViewSet_update partial d b (project_id p) pl = Inl NotFound
          \<and> ProjectViewSet_destroy d b (project_id p) = Inl NotFound
          \<and> ProjectViewSet_retrieve (delete_project d (project_id p)) b (project_id p) = Inl NotFound
          \<and> ProjectViewSet_update partial (delete_project d (project_id p)) b (project_id p) pl = Inl NotFound
          \<and> ProjectViewSet_destroy (delete_project d (project_id p)) b (project_id p) = Inl NotFound"
    if p: "p \<in> set (project_tbl d)" "project_user p = a"
  proof -
    have nf: "get_object d b (project_id p) = Inl NotFound"
      using get_object_other [OF assms(1) p(1)] p(2) assms(2) by simp
    have nf': "get_object (delete_project d (project_id p)) b (project_id p) = Inl NotFound"
      by (rule get_object_delete_project)
    have 1: "p \<notin> set (ProjectViewSet_get_queryset d b)"
      using p(2) assms(2) by (simp add: ProjectViewSet_get_queryset_def)
    have 2: "project_id p \<notin> set (map r_id (ProjectViewSet_list d b))"
    proof
      assume "project_id p \<in> set (map r_id (ProjectViewSet_list d b))"
      then obtain p' where p': "p' \<in> set (project_tbl d)" "project_user p' = b"
        "project_id p' = project_id p"
        by (auto simp: ProjectViewSet_list_def ProjectViewSet_get_queryset_def to_representation_def)
      then have "p' = p"
        using wf_db_unique_id [OF assms(1) p'(1) p(1)] by simp
      with p'(2) p(2) assms(2) show False by simp
    qed
    show ?thesis
      using 1 2 nf nf'
      by (simp add: ProjectViewSet_retrieve_def ProjectViewSet_update_def ProjectViewSet_destroy_def)
  qed
  have tags: "(\<forall>ts. BaseProjectAttrViewSet_get_queryset rel d b q = Inr ts \<longrightarrow> t \<notin> set ts)
          \<and> (\<forall>l. TagViewSet_list rel d b q = Inr l \<longrightarrow> tag_id t \<notin> set (map fst l))"
    if t: "t \<in> set (tag_tbl d)" "tag_user t = a"
  proof -
    have 1: "t \<notin> set ts" if "BaseProjectAttrViewSet_get_queryset rel d b q = Inr ts" for ts
      using tag_queryset_owner [OF that, of t] t(2) assms(2) by auto
    have 2: "tag_id t \<notin> set (map fst l)" if l: "TagViewSet_list rel d b q = Inr l" for l
    proof
      assume in_l: "tag_id t \<in> set (map fst l)"
      from l obtain ts where ts: "BaseProjectAttrViewSet_get_queryset rel d b q = Inr ts"
        and l_eq: "l = map TagSerializer ts"
        by (auto simp: TagViewSet_list_def split: sum.splits)
      from in_l l_eq obtain t' where t': "t' \<in> set ts" "tag_id t' = tag_id t"
        by (auto simp: TagSerializer_def)
      have own: "t' \<in> set (tag_tbl d) \<and> tag_user t' = b"
        using tag_queryset_owner [OF ts t'(1)] .
      have "t' = t"
        using assms(1) own t(1) t'(2) by (auto simp: wf_db_def distinct_map inj_on_def)
      with own t(2) assms(2) show False by simp
    qed
    show ?thesis using 1 2 by blast
  qed
  show ?thesis
    using proj tags resolve_tag_item by (simp add: HTTP_403_FORBIDDEN_def)
qed

theorem ownership_isolation_witness:
  "wf_db ex_db \<and> (1::nat) \<noteq> 2
   \<and> ex_project \<in> set (project_tbl ex_db) \<and> project_user ex_project = 1
   \<and> ex_tag \<in> set (tag_tbl ex_db) \<and> tag_user ex_tag = 1
   \<and> ex_project \<notin> set (ProjectViewSet_get_queryset ex_db 2)
   \<and> ProjectViewSet_retrieve ex_db 2 1 = Inl NotFound
   \<and> ProjectViewSet_update False ex_db 2 1 ex_put = Inl NotFound
   \<and> ProjectViewSet_destroy ex_db 2 1 = Inl NotFound
   \<and> TagViewSet_list ''recipe'' ex_db 2 None = Inr [(3, ''Main project'')]"
proof -
  have wf: "wf_db ex_db"
    by (simp add: wf_db_def ex_db_def)
  have ne: "(1::nat) \<noteq> 2" by simp
  have p: "ex_project \<in> set (project_tbl ex_db) \<and> project_user ex_project = 1"
    by (simp add: ex_db_def ex_project_def)
  have t: "ex_tag \<in> set (tag_tbl ex_db) \<and> tag_user ex_tag = 1"
    by (simp add: ex_db_def ex_tag_def)
  have l: "TagViewSet_list ''recipe'' ex_db 2 None = Inr [(3, ''Main project'')]"
    by (simp add: TagViewSet_list_def BaseProjectAttrViewSet_get_queryset_def
        assigned_only_flag_def order_by_name_desc_def TagSerializer_def ex_db_def)
  have id: "project_id ex_project = 1" by (simp add: ex_project_def)
  show ?thesis
    using ownership_isolation [OF wf ne, of ex_project False ex_put ex_tag "''recipe''" None]
      wf p t l id by simp
qed

section \<open>Writing the tags of a project\<close>

text \<open>
  Claim C2, as stated, fails: the field \<open>tags\<close> looks a key up in \<open>Tag.objects.all()\<close>,
  so a reference to a tag of another user is accepted. User 2 creates a project with
  tag 1, which user 1 owns, and the project is created with that tag.
\<close>

theorem foreign_tag_accepted_counterexample:
  "ex_tag \<in> set (tag_tbl ex_db) \<and> tag_user ex_tag = 1
   \<and> tags_in ex_post_tags = Valid [tag_id ex_tag]
   \<and> ProjectViewSet_create ex_db 2 ex_post_tags =
       Inr (\<lparr>r_id = 3, r_title = ''Videogame'',
             r_description = ''A massive open world videogame'', r_tags = TagIds [1],
             r_price = 500, r_link = []\<rparr>,
            ex_db\<lparr>project_tbl := project_tbl ex_db @
                     [\<lparr>project_id = 3, title = ''Videogame'',
                       description = ''A massive open world videogame'', price = 500,
                       link = [], project_user = 2\<rparr>],
                  project_tags_tbl := [(1, 1), (2, 3), (3, 1)]\<rparr>)"
  by code_simp

text \<open>
  Claim C2, amended. When a body supplies \<open>tags\<close> and the creation or the update (full
  or partial) is accepted, the project's tag set afterwards, and the tags of the answer,
  are exactly the supplied references. When some supplied reference is the key of no
  tag, creation ends in \<open>ValidationError\<close> and an update in \<open>NotFound\<close> or
  \<open>ValidationError\<close>. Who owns a referenced tag is not examined.
\<close>

theorem tags_replaced_when_supplied:
  assumes "tags_in pl = Valid ts"
  shows "(\<forall>r d'. ProjectViewSet_create d u pl = Inr (r, d') \<longrightarrow>
            tag_ids_of d' (r_id r) = set ts
          \<and> (\<exists>l. r_tags r = TagIds l \<and> set l = set ts))
       \<and> (\<forall>r d'. ProjectViewSet_update partial d u pk pl = Inr (r, d') \<longrightarrow>
            tag_ids_of d' pk = set ts
          \<and> (\<exists>l. r_tags r = TagIds l \<and> set l = set ts))
       \<and> (\<not> set ts \<subseteq> tag_id ` set (tag_tbl d) \<longrightarrow>
            ProjectViewSet_create d u pl = Inl ValidationError
          \<and> (ProjectViewSet_update partial d u pk pl = Inl NotFound
             \<or> ProjectViewSet_update partial d u pk pl = Inl ValidationError))"
proof -
  have valid: "v_tags v = Some ts \<and> set ts \<subseteq> tag_id ` set (tag_tbl d)"
    if "ProjectSerializer_is_valid d part pl = Inr v" for part v
    using is_valid_tags [OF that] assms
    by (simp add: tags_run_validation_Valid split: if_splits)
  have c: "tag_ids_of d' (r_id r) = set ts \<and> (\<exists>l. r_tags r = TagIds l \<and> set l = set ts)"
    if "ProjectViewSet_create d u pl = Inr (r, d')" for r d'
  proof -
    from create_Inr [OF that] obtain v where v: "ProjectSerializer_is_valid d False pl = Inr v"
      and d': "d' = fst (ModelSerializer_create d u v)"
      and r: "r = to_representation ProjectSerializer d' (snd (ModelSerializer_create d u v))"
      by blast
    have ids: "tag_ids_of d' (r_id r) = set ts"
      using create_tag_ids [of d u v] valid [OF v] by (simp add: d' r)
    have "set (map tag_id (project_tags d' (r_id r))) = set ts"
      unfolding map_tag_id_project_tags ids using valid [OF v] by (auto simp: d' create_tables)
    then show ?thesis
      using ids by (simp add: r r_tags_ProjectSerializer)
  qed
  have up: "tag_ids_of d' pk = set ts \<and> (\<exists>l. r_tags r = TagIds l \<and> set l = set ts)"
    if "ProjectViewSet_update partial d u pk pl = Inr (r, d')" for r d'
  proof -
    from update_Inr [OF that] obtain p v where p: "get_object d u pk = Inr p"
      and v: "ProjectSerializer_is_valid d partial pl = Inr v"
      and d': "d' = fst (ModelSerializer_update d p v)"
      and r: "r = to_representation ProjectSerializer d' (snd (ModelSerializer_update d p v))"
      by blast
    have pk: "project_id p = pk"
      using get_object_Inr [OF p] by simp
    have ids: "tag_ids_of d' pk = set ts"
      using update_tag_ids [of d p v] valid [OF v] by (simp add: d' pk)
    have "set (map tag_id (project_tags d' pk)) = set ts"
      unfolding map_tag_id_project_tags ids using valid [OF v] by (auto simp: d' update_tables)
    then show ?thesis
      using ids by (simp add: r r_tags_ProjectSerializer update_snd_id pk)
  qed
  have bad: "ProjectViewSet_create d u pl = Inl ValidationError
          \<and> (ProjectViewSet_update partial d u pk pl = Inl NotFound
             \<or> ProjectViewSet_update partial d u pk pl = Inl ValidationError)"
    if "\<not> set ts \<subseteq> tag_id ` set (tag_tbl d)"
  proof -
    have "tags_run_validation d (encoding pl) part (tags_in pl) = Inl ValidationError" for part
      using that assms by (simp add: tags_run_validation_Valid)
    then have inv: "ProjectSerializer_is_valid d part pl = Inl ValidationError" for part
      using is_valid_tags_error by blast
    have 1: "ProjectViewSet_create d u pl = Inl ValidationError"
      by (simp add: ProjectViewSet_create_def inv)
    have 2: "ProjectViewSet_update partial d u pk pl = Inl NotFound
             \<or> ProjectViewSet_update partial d u pk pl = Inl ValidationError"
    proof (cases "get_object d u pk")
      case (Inl e)
      then have "e = NotFound" by (rule get_object_error)
      with Inl show ?thesis by (simp add: ProjectViewSet_update_def)
    next
      case (Inr p)
      then show ?thesis by (simp add: ProjectViewSet_update_def inv)
    qed
    show ?thesis using 1 2 by simp
  qed
  show ?thesis using c up bad by blast
qed

theorem tags_replaced_when_supplied_witness:
  "tags_in ex_post_tags = Valid [1]
   \<and> map_sum id (\<lambda>(r, d'). (r_id r, r_tags r, tag_ids_of d' (r_id r)))
        (ProjectViewSet_create ex_db 1 ex_post_tags) = Inr (3, TagIds [1], {1})
   \<and> map_sum id (\<lambda>(r, d'). (r_tags r, tag_ids_of d' 1))
        (ProjectViewSet_update True ex_db 1 1 ex_post_tags) = Inr (TagIds [1], {1})
   \<and> tags_in ex_post_unknown_tag = Valid [9]
   \<and> \<not> set [9] \<subseteq> tag_id ` set (tag_tbl ex_db)
   \<and> ProjectViewSet_create ex_db 1 ex_post_unknown_tag = Inl ValidationError
   \<and> ProjectViewSet_update True ex_db 1 1 ex_post_unknown_tag = Inl ValidationError"
proof -
  have h1: "tags_in ex_post_tags = Valid [1]"
    by (simp add: ex_post_tags_def)
  have h2: "tags_in ex_post_unknown_tag = Valid [9]"
    by (simp add: ex_post_unknown_tag_def)
  have h3: "\<not> set [9] \<subseteq> tag_id ` set (tag_tbl ex_db)"
    by (simp add: ex_db_def)
  have c: "map_sum id (\<lambda>(r, d'). (r_id r, r_tags r, tag_ids_of d' (r_id r)))
        (ProjectViewSet_create ex_db 1 ex_post_tags) = Inr (3, TagIds [1], {1})"
    by code_simp
  have u: "map_sum id (\<lambda>(r, d'). (r_tags r, tag_ids_of d' 1))
        (ProjectViewSet_update True ex_db 1 1 ex_post_tags) = Inr (TagIds [1], {1})"
    by code_simp
  have nf: "ProjectViewSet_update True ex_db 1 1 ex_post_unknown_tag = Inl ValidationError"
    by code_simp
  show ?thesis
    using tags_replaced_when_supplied [OF h1, of ex_db 1 True 1]
      tags_replaced_when_supplied [OF h2, of ex_db 1 True 1] h1 h2 h3 c u nf
    by simp
qed

text \<open>
  Claim C3, as stated, fails: \<open>tags\<close> is a required field, and only a form body turns an
  absent key into the empty list. The owner's full update of project 1 with a JSON body
  of title, description and price is rejected, and the project keeps its tag.
\<close>

theorem full_update_omitting_tags_counterexample:
  "tags_in ex_put = Absent
   \<and> get_object ex_db 1 1 = Inr ex_project
   \<and> tag_ids_of ex_db 1 = {1}
   \<and> ProjectViewSet_update False ex_db 1 1 ex_put = Inl ValidationError"
  by code_simp

text \<open>
  Claim C3, amended. A full update whose body omits \<open>tags\<close> and which is accepted leaves
  the project with no tag, and its body was a form. A form body is accepted when the
  project is the caller's, title, description and price are valid and the link is not
  invalid. A JSON body that omits \<open>tags\<close> is never accepted: the update ends in
  \<open>NotFound\<close> or \<open>ValidationError\<close>.
\<close>

theorem full_update_omitting_tags:
  assumes "tags_in pl = Absent"
  shows "(\<forall>r d'. ProjectViewSet_update False d u pk pl = Inr (r, d') \<longrightarrow>
            encoding pl = HtmlForm \<and> tag_ids_of d' pk = {} \<and> r_tags r = TagIds [])
       \<and> (encoding pl = Json \<longrightarrow>
            ProjectViewSet_update False d u pk pl = Inl NotFound
          \<or> ProjectViewSet_update False d u pk pl = Inl ValidationError)
       \<and> (encoding pl = HtmlForm \<and> (\<exists>p. get_object d u pk = Inr p)
            \<and> (\<exists>s. title_in pl = Valid s) \<and> (\<exists>s. description_in pl = Valid s)
            \<and> (\<exists>n. price_in pl = Valid n) \<and> link_in pl \<noteq> Invalid \<longrightarrow>
            (\<exists>r d'. ProjectViewSet_update False d u pk pl = Inr (r, d')))"
proof -
  have ok: "encoding pl = HtmlForm \<and> tag_ids_of d' pk = {} \<and> r_tags r = TagIds []"
    if "ProjectViewSet_update False d u pk pl = Inr (r, d')" for r d'
  proof -
    from update_Inr [OF that] obtain p v where p: "get_object d u pk = Inr p"
      and v: "ProjectSerializer_is_valid d False pl = Inr v"
      and d': "d' = fst (ModelSerializer_update d p v)"
      and r: "r = to_representation ProjectSerializer d' (snd (ModelSerializer_update d p v))"
      by blast
    have pk: "project_id p = pk"
      using get_object_Inr [OF p] by simp
    have t: "encoding pl = HtmlForm \<and> v_tags v = Some []"
      using is_valid_tags [OF v] assms
      by (cases "encoding pl") (simp_all add: tags_run_validation_Absent)
    have ids: "tag_ids_of d' pk = {}"
      using update_tag_ids [of d p v] t by (simp add: d' pk)
    have "set (map tag_id (project_tags d' pk)) = {}"
      unfolding map_tag_id_project_tags ids by simp
    then have "project_tags d' pk = []" by simp
    then show ?thesis
      using t ids by (simp add: r r_tags_ProjectSerializer update_snd_id pk)
  qed
  have json: "ProjectViewSet_update False d u pk pl = Inl NotFound
          \<or> ProjectViewSet_update False d u pk pl = Inl ValidationError"
    if "encoding pl = Json"
  proof -
    have "tags_run_validation d (encoding pl) False (tags_in pl) = Inl ValidationError"
      using that assms by (simp add: tags_run_validation_Absent)
    then have inv: "ProjectSerializer_is_valid d False pl = Inl ValidationError"
      by (rule is_valid_tags_error)
    show ?thesis
    proof (cases "get_object d u pk")
      case (Inl e)
      then have "e = NotFound" by (rule get_object_error)
      with Inl show ?thesis by (simp add: ProjectViewSet_update_def)
    next
      case (Inr p)
      then show ?thesis by (simp add: ProjectViewSet_update_def inv)
    qed
  qed
  have form: "\<exists>r d'. ProjectViewSet_update False d u pk pl = Inr (r, d')"
    if "encoding pl = HtmlForm \<and> (\<exists>p. get_object d u pk = Inr p)
            \<and> (\<exists>s. title_in pl = Valid s) \<and> (\<exists>s. description_in pl = Valid s)
            \<and> (\<exists>n. price_in pl = Valid n) \<and> link_in pl \<noteq> Invalid"
  proof -
    from that obtain p where p: "get_object d u pk = Inr p" by blast
    have "tags_run_validation d (encoding pl) False (tags_in pl) = Inr (Some [])"
      using that assms by (simp add: tags_run_validation_Absent)
    then have "\<exists>v. ProjectSerializer_is_valid d False pl = Inr v"
      using that
      by (cases "link_in pl") (auto simp: ProjectSerializer_is_valid_def run_validation_def)
    then obtain v where v: "ProjectSerializer_is_valid d False pl = Inr v" by blast
    show ?thesis
      by (simp add: ProjectViewSet_update_def p v split: prod.splits)
  qed
  show ?thesis using ok json form by blast
qed

theorem full_update_omitting_tags_witness:
  "tags_in ex_put_form = Absent \<and> encoding ex_put_form = HtmlForm
   \<and> tag_ids_of ex_db 1 = {1}
   \<and> map_sum id (\<lambda>(r, d'). (r_tags r, tag_ids_of d' 1))
        (ProjectViewSet_update False ex_db 1 1 ex_put_form) = Inr (TagIds [], {})
   \<and> tags_in ex_put = Absent \<and> encoding ex_put = Json
   \<and> ProjectViewSet_update False ex_db 1 1 ex_put = Inl ValidationError"
proof -
  have h1: "tags_in ex_put_form = Absent" by (simp add: ex_put_form_def ex_put_def)
  have h2: "tags_in ex_put = Absent" by (simp add: ex_put_def)
  have e1: "encoding ex_put_form = HtmlForm" by (simp add: ex_put_form_def)
  have e2: "encoding ex_put = Json" by (simp add: ex_put_def)
  have t: "tag_ids_of ex_db 1 = {1}" by code_simp
  have u: "map_sum id (\<lambda>(r, d'). (r_tags r, tag_ids_of d' 1))
        (ProjectViewSet_update False ex_db 1 1 ex_put_form) = Inr (TagIds [], {})"
    by code_simp
  have j: "ProjectViewSet_update False ex_db 1 1 ex_put = Inl ValidationError"
    by code_simp
  show ?thesis
    using full_update_omitting_tags [OF h1, of ex_db 1 1]
      full_update_omitting_tags [OF h2, of ex_db 1 1] h1 h2 e1 e2 t u j
    by simp
qed

text \<open>
  Claim C4. A partial update whose body supplies \<open>tags\<close> and nothing else, on a store
  with unique primary keys: it is accepted exactly when the project is the caller's and
  every reference is the key of a tag; when it is accepted the project's tag set is the
  supplied set, the table of projects (title, description, price, link and owner of every
  row) and the table of tags are unchanged, and the answer carries the old title,
  description, price and link. A rejected update changes nothing at all.
\<close>

theorem partial_update_only_tags:
  assumes "wf_db d"
    and "title_in pl = Absent" and "description_in pl = Absent"
    and "price_in pl = Absent" and "link_in pl = Absent"
    and "tags_in pl = Valid ts"
  shows "(\<forall>r d'. ProjectViewSet_update True d u pk pl = Inr (r, d') \<longrightarrow>
            tag_ids_of d' pk = set ts
          \<and> project_tbl d' = project_tbl d
          \<and> tag_tbl d' = tag_tbl d
          \<and> get_object d' u pk = get_object d u pk
          \<and> (\<forall>p. get_object d u pk = Inr p \<longrightarrow>
                r_title r = title p \<and> r_description r = description p
              \<and> r_price r = price p \<and> r_link r = link p \<and> r_id r = project_id p))
       \<and> ((\<exists>r d'. ProjectViewSet_update True d u pk pl = Inr (r, d')) \<longleftrightarrow>
            (\<exists>p. get_object d u pk = Inr p) \<and> set ts \<subseteq> tag_id ` set (tag_tbl d))"
proof -
  have valid: "ProjectSerializer_is_valid d True pl =
      (if set ts \<subseteq> tag_id ` set (tag_tbl d)
       then Inr \<lparr>v_title = None, v_description = None, v_tags = Some ts, v_price = None,
                 v_link = None\<rparr>
       else Inl ValidationError)"
    using assms(2-6)
    by (simp add: ProjectSerializer_is_valid_def run_validation_def tags_run_validation_Valid)
  have ok: "tag_ids_of d' pk = set ts
          \<and> project_tbl d' = project_tbl d
          \<and> tag_tbl d' = tag_tbl d
          \<and> get_object d' u pk = get_object d u pk
          \<and> (\<forall>p. get_object d u pk = Inr p \<longrightarrow>
                r_title r = title p \<and> r_description r = description p
              \<and> r_price r = price p \<and> r_link r = link p \<and> r_id r = project_id p)"
    if "ProjectViewSet_update True d u pk pl = Inr (r, d')" for r d'
  proof -
    from update_Inr [OF that] obtain p v where p: "get_object d u pk = Inr p"
      and v: "ProjectSerializer_is_valid d True pl = Inr v"
      and d': "d' = fst (ModelSerializer_update d p v)"
      and r: "r = to_representation ProjectSerializer d' (snd (ModelSerializer_update d p v))"
      by blast
    have pk: "project_id p = pk" and p_in: "p \<in> set (project_tbl d)"
      using get_object_Inr [OF p] by simp_all
    have v_eq: "v = \<lparr>v_title = None, v_description = None, v_tags = Some ts, v_price = None,
                 v_link = None\<rparr>"
      using v unfolding valid by (simp split: if_splits)
    have same: "snd (ModelSerializer_update d p v) = p"
      by (simp add: ModelSerializer_update_def Let_def v_eq)
    have ids: "tag_ids_of d' pk = set ts"
      using update_tag_ids [of d p v] by (simp add: d' pk v_eq)
    have tbl: "project_tbl d' = project_tbl d"
      unfolding d' update_project_tbl same
      using assms(1) p_in by (simp add: wf_db_def map_replace_same)
    have tags: "tag_tbl d' = tag_tbl d"
      by (simp add: d' update_tables)
    have obj: "get_object d' u pk = get_object d u pk"
      by (simp add: get_object_def ProjectViewSet_get_queryset_def tbl)
    have rep: "r_title r = title p \<and> r_description r = description p
              \<and> r_price r = price p \<and> r_link r = link p \<and> r_id r = project_id p"
      by (simp add: r same to_representation_def)
    show ?thesis
      using ids tbl tags obj rep p by simp
  qed
  have iff: "(\<exists>r d'. ProjectViewSet_update True d u pk pl = Inr (r, d')) \<longleftrightarrow>
            (\<exists>p. get_object d u pk = Inr p) \<and> set ts \<subseteq> tag_id ` set (tag_tbl d)"
  proof (cases "get_object d u pk")
    case (Inl e)
    then show ?thesis by (simp add: ProjectViewSet_update_def)
  next
    case (Inr p)
    then show ?thesis by (simp add: ProjectViewSet_update_def valid split: prod.splits)
  qed
  show ?thesis using ok iff by blast
qed

theorem partial_update_only_tags_witness:
  "wf_db ex_db
   \<and> title_in ex_patch = Absent \<and> description_in ex_patch = Absent
   \<and> price_in ex_patch = Absent \<and> link_in ex_patch = Absent \<and> tags_in ex_patch = Valid [2]
   \<and> tag_ids_of ex_db 1 = {1}
   \<and> get_object ex_db 1 1 = Inr ex_project
   \<and> set [2] \<subseteq> tag_id ` set (tag_tbl ex_db)
   \<and> map_sum id (\<lambda>(r, d'). (r_title r, r_tags r, tag_ids_of d' 1, project_tbl d' = project_tbl ex_db))
        (ProjectViewSet_update True ex_db 1 1 ex_patch) =
       Inr (''Sample project'', TagIds [2], {2}, True)"
proof -
  have wf: "wf_db ex_db" by (simp add: wf_db_def ex_db_def)
  have h: "title_in ex_patch = Absent" "description_in ex_patch = Absent"
    "price_in ex_patch = Absent" "link_in ex_patch = Absent" "tags_in ex_patch = Valid [2]"
    by (simp_all add: ex_patch_def)
  have t: "tag_ids_of ex_db 1 = {1}" by code_simp
  have g: "get_object ex_db 1 1 = Inr ex_project" by code_simp
  have s: "set [2] \<subseteq> tag_id ` set (tag_tbl ex_db)" by (simp add: ex_db_def)
  have u: "map_sum id (\<lambda>(r, d'). (r_title r, r_tags r, tag_ids_of d' 1, project_tbl d' = project_tbl ex_db))
        (ProjectViewSet_update True ex_db 1 1 ex_patch) =
       Inr (''Sample project'', TagIds [2], {2}, True)"
    by code_simp
  show ?thesis
    using partial_update_only_tags [OF wf h, of 1 1] wf h t g s u by simp
qed

section \<open>Output shapes\<close>

text \<open>
  Claim C5. \<open>get_serializer_class\<close> gives the detail serializer for the action
  \<open>retrieve\<close> and for no other, and a representation is in the detail shape exactly when
  the detail serializer made it. So every answer of \<open>retrieve\<close> embeds the tags, and no
  row of \<open>list\<close> and no answer of \<open>create\<close>, \<open>update\<close> or \<open>partial_update\<close> does.
\<close>

theorem detail_shape_iff_retrieve:
  "(get_serializer_class a = ProjectDetailSerializer \<longleftrightarrow> a = A_retrieve)
   \<and> (is_detail (to_representation (get_serializer_class a) d p) \<longleftrightarrow> a = A_retrieve)
   \<and> (\<forall>r. ProjectViewSet_retrieve d u pk = Inr r \<longrightarrow> is_detail r)
   \<and> (\<forall>r \<in> set (ProjectViewSet_list d u). \<not> is_detail r)
   \<and> (\<forall>r d'. ProjectViewSet_create d u pl = Inr (r, d') \<longrightarrow> \<not> is_detail r)
   \<and> (\<forall>r d'. ProjectViewSet_update partial d u pk pl = Inr (r, d') \<longrightarrow> \<not> is_detail r)"
proof -
  have 1: "get_serializer_class a = ProjectDetailSerializer \<longleftrightarrow> a = A_retrieve"
    by (simp add: get_serializer_class_def)
  have 2: "is_detail (to_representation (get_serializer_class a) d p) \<longleftrightarrow> a = A_retrieve"
    by (simp add: is_detail_to_representation 1)
  have 3: "is_detail r" if "ProjectViewSet_retrieve d u pk = Inr r" for r
    using that
    by (auto simp: ProjectViewSet_retrieve_def is_detail_to_representation get_serializer_class_def
        split: sum.splits)
  have 4: "\<not> is_detail r" if "r \<in> set (ProjectViewSet_list d u)" for r
    using that
    by (auto simp: ProjectViewSet_list_def is_detail_to_representation get_serializer_class_def)
  have 5: "\<not> is_detail r" if "ProjectViewSet_create d u pl = Inr (r, d')" for r d'
    using create_Inr [OF that] by (auto simp: is_detail_to_representation)
  have 6: "\<not> is_detail r" if "ProjectViewSet_update partial d u pk pl = Inr (r, d')" for r d'
    using update_Inr [OF that] by (auto simp: is_detail_to_representation)
  show ?thesis using 1 2 3 4 5 6 by blast
qed

theorem detail_shape_iff_retrieve_witness:
  "map_sum id (\<lambda>r. (r_tags r, is_detail r)) (ProjectViewSet_retrieve ex_db 1 1) =
     Inr (TagObjects [(1, ''Internal'')], True)
   \<and> map (\<lambda>r. (r_tags r, is_detail r)) (ProjectViewSet_list ex_db 1) = [(TagIds [1], False)]
   \<and> map_sum id (\<lambda>(r, d'). (r_tags r, is_detail r)) (ProjectViewSet_create ex_db 1 ex_post_tags) =
     Inr (TagIds [1], False)
   \<and> map_sum id (\<lambda>(r, d'). (r_tags r, is_detail r)) (ProjectViewSet_update True ex_db 1 1 ex_patch) =
     Inr (TagIds [2], False)
   \<and> map_sum id (\<lambda>(r, d'). (r_tags r, is_detail r)) (ProjectViewSet_update False ex_db 1 1 ex_put_form) =
     Inr (TagIds [], False)"
proof -
  have 1: "map_sum id (\<lambda>r. (r_tags r, is_detail r)) (ProjectViewSet_retrieve ex_db 1 1) =
     Inr (TagObjects [(1, ''Internal'')], True)"
    by code_simp
  have 2: "map (\<lambda>r. (r_tags r, is_detail r)) (ProjectViewSet_list ex_db 1) = [(TagIds [1], False)]"
    by code_simp
  have 3: "map_sum id (\<lambda>(r, d'). (r_tags r, is_detail r)) (ProjectViewSet_create ex_db 1 ex_post_tags) =
     Inr (TagIds [1], False)"
    by code_simp
  have 4: "map_sum id (\<lambda>(r, d'). (r_tags r, is_detail r)) (ProjectViewSet_update True ex_db 1 1 ex_patch) =
     Inr (TagIds [2], False)"
    by code_simp
  have 5: "map_sum id (\<lambda>(r, d'). (r_tags r, is_detail r)) (ProjectViewSet_update False ex_db 1 1 ex_put_form) =
     Inr (TagIds [], False)"
    by code_simp
  show ?thesis
    using detail_shape_iff_retrieve [of A_retrieve ex_db ex_project 1 1 ex_patch True]
      detail_shape_iff_retrieve [of A_list ex_db ex_project 1 1 ex_post_tags False] 1 2 3 4 5
    by simp
qed

section \<open>Listing\<close>

text \<open>
  Claim C6 fails on the code. With \<open>assigned_only=1\<close> the view filters on a relation
  called \<open>recipe\<close>; with the relation under the default name of the class \<open>Project\<close> the
  look-up cannot be resolved and the request ends in \<open>FieldError\<close>, for every store and
  every user.
\<close>

theorem assigned_only_unresolved_lookup:
  "TagViewSet_list default_related_query_name d u (Some (codepoints ''1'')) = Inl FieldError
   \<and> status_code FieldError = 500"
  by (simp add: TagViewSet_list_flag py_int_1 filter_isnull_False_def Tag_columns_def
      default_related_query_name_def)

text \<open>
  Claim C7 fails on the code. \<open>ProjectViewSet.get_queryset\<close> filters by owner and orders
  nothing: the list is in the order of the table. Three projects created in turn by one
  user in an empty store are listed as 1, 2, 3.
\<close>

theorem project_list_in_table_order:
  "ProjectViewSet_get_queryset d u = filter (\<lambda>p. project_user p = u) (project_tbl d)
   \<and> map r_id (ProjectViewSet_list d u) =
       map project_id (filter (\<lambda>p. project_user p = u) (project_tbl d))
   \<and> map r_id (ProjectViewSet_list
        (after_create (after_create (after_create empty_db 1 ex_post) 1 ex_post) 1 ex_post) 1) =
       [1, 2, 3]"
proof -
  have 1: "map r_id (ProjectViewSet_list
        (after_create (after_create (after_create empty_db 1 ex_post) 1 ex_post) 1 ex_post) 1) =
       [1, 2, 3]"
    by code_simp
  show ?thesis
    using 1 by (simp add: ProjectViewSet_get_queryset_def ProjectViewSet_list_def)
qed

text \<open>
  Claim C8. Without the query parameter the tag list always answers, with exactly the
  caller's tags. Whatever the parameter, an answered tag list holds only tags of the
  caller, no row twice, and the names descend from row to row.
\<close>

theorem tag_list_ordered_by_name_desc:
  "(\<exists>ts. BaseProjectAttrViewSet_get_queryset rel d u None = Inr ts
         \<and> TagViewSet_list rel d u None = Inr (map TagSerializer ts)
         \<and> set ts = {t \<in> set (tag_tbl d). tag_user t = u})
   \<and> (\<forall>ts. BaseProjectAttrViewSet_get_queryset rel d u q = Inr ts \<longrightarrow>
         sorted_wrt (\<lambda>x y. tag_name y \<le> tag_name x) ts \<and> distinct ts
         \<and> set ts \<subseteq> {t \<in> set (tag_tbl d). tag_user t = u})
   \<and> (\<forall>l. TagViewSet_list rel d u q = Inr l \<longrightarrow> sorted_wrt (\<lambda>x y. snd y \<le> snd x) l)"
proof -
  have 1: "\<exists>ts. BaseProjectAttrViewSet_get_queryset rel d u None = Inr ts
         \<and> TagViewSet_list rel d u None = Inr (map TagSerializer ts)
         \<and> set ts = {t \<in> set (tag_tbl d). tag_user t = u}"
    by (auto simp: tag_queryset_no_parameter TagViewSet_list_def set_order_by_name_desc)
  have 2: "sorted_wrt (\<lambda>x y. tag_name y \<le> tag_name x) ts \<and> distinct ts
         \<and> set ts \<subseteq> {t \<in> set (tag_tbl d). tag_user t = u}"
    if "BaseProjectAttrViewSet_get_queryset rel d u q = Inr ts" for ts
    using tag_queryset_sorted [OF that] tag_queryset_owner [OF that] by auto
  have 3: "sorted_wrt (\<lambda>x y. snd y \<le> snd x) l" if l: "TagViewSet_list rel d u q = Inr l" for l
  proof -
    from l obtain ts where ts: "BaseProjectAttrViewSet_get_queryset rel d u q = Inr ts"
      and l_eq: "l = map TagSerializer ts"
      by (auto simp: TagViewSet_list_def split: sum.splits)
    have "sorted_wrt (\<lambda>x y. tag_name y \<le> tag_name x) ts"
      using tag_queryset_sorted [OF ts] by simp
    then show ?thesis
      by (simp add: l_eq sorted_wrt_map TagSerializer_def)
  qed
  show ?thesis using 1 2 3 by blast
qed

theorem tag_list_ordered_by_name_desc_witness:
  "BaseProjectAttrViewSet_get_queryset ''project'' ex_db 1 None =
     Inr [\<lparr>tag_id = 1, tag_name = ''Internal'', tag_user = 1\<rparr>,
          \<lparr>tag_id = 2, tag_name = ''External'', tag_user = 1\<rparr>]
   \<and> TagViewSet_list ''project'' ex_db 1 None = Inr [(1, ''Internal''), (2, ''External'')]
   \<and> sorted_wrt (\<lambda>x y. snd y \<le> snd x) [(1::nat, ''Internal''), (2, ''External'')]"
proof -
  have q: "BaseProjectAttrViewSet_get_queryset ''project'' ex_db 1 None =
     Inr [\<lparr>tag_id = 1, tag_name = ''Internal'', tag_user = 1\<rparr>,
          \<lparr>tag_id = 2, tag_name = ''External'', tag_user = 1\<rparr>]"
    by (simp add: BaseProjectAttrViewSet_get_queryset_def assigned_only_flag_def
        order_by_name_desc_def ex_db_def)
  have l: "TagViewSet_list ''project'' ex_db 1 None = Inr [(1, ''Internal''), (2, ''External'')]"
    unfolding TagViewSet_list_def q by (simp add: TagSerializer_def)
  show ?thesis
    using tag_list_ordered_by_name_desc [of "''project''" ex_db 1 None] q l
    by (simp add: TagSerializer_def)
qed

section \<open>Routes of the tag resource\<close>

text \<open>
  Claim C9, as stated, fails: \<open>BaseProjectAttrViewSet\<close> inherits the list and the create
  mixin only, so no item route is generated for tags.
\<close>

theorem tag_item_operations_counterexample:
  "resolve TagViewSet_actions Item GET = Inl NotFound
   \<and> resolve TagViewSet_actions Item PUT = Inl NotFound
   \<and> resolve TagViewSet_actions Item PATCH = Inl NotFound
   \<and> resolve TagViewSet_actions Item DELETE = Inl NotFound
   \<and> A_retrieve \<notin> set TagViewSet_actions"
  by (simp add: resolve_def get_method_map_def TagViewSet_actions_def BaseProjectAttrViewSet_mixins_def)

text \<open>
  Claim C9, amended. The actions of the tag resource are \<open>list\<close> and \<open>create\<close>, bound to
  GET and POST of the collection; an item-level request on a tag resolves to nothing,
  whatever the method.
\<close>

theorem tag_resource_operations:
  "set TagViewSet_actions = {A_list, A_create}
   \<and> resolve TagViewSet_actions Collection GET = Inr A_list
   \<and> resolve TagViewSet_actions Collection POST = Inr A_create
   \<and> (\<forall>m. resolve TagViewSet_actions Item m = Inl NotFound)"
  using resolve_tag_item resolve_tag_collection
  by (simp add: TagViewSet_actions_def BaseProjectAttrViewSet_mixins_def)

section \<open>The query parameter\<close>

text \<open>
  Claim C10. The value of \<open>assigned_only\<close> goes through \<open>int\<close>. A value that converts
  to a number other than zero turns the flag on: the answer is that of the value \<open>1\<close>,
  the list built from the tags filtered on the relation (or the error of that filter). A
  value that converts to zero turns the flag off, as a request without the parameter
  does: the answer is the list built from all tags, with no filter on the relation. A
  value that does not convert ends the request in \<open>ValueError\<close>, a server error and not
  a \<open>ValidationError\<close>.
\<close>

theorem assigned_only_integer_conversion:
  "(\<forall>n. py_int s = Some n \<and> n \<noteq> 0 \<longrightarrow>
        assigned_only_flag (Some s) = Inr True
      \<and> TagViewSet_list rel d u (Some s) = TagViewSet_list rel d u (Some (codepoints ''1''))
      \<and> TagViewSet_list rel d u (Some s) =
          (case filter_isnull_False rel ''recipe'' d (tag_tbl d) of
             Inl e \<Rightarrow> Inl e
           | Inr queryset \<Rightarrow>
               Inr (map TagSerializer
                      (remdups (order_by_name_desc (filter (\<lambda>t. tag_user t = u) queryset))))))
   \<and> (py_int s = Some 0 \<longrightarrow>
        assigned_only_flag (Some s) = Inr False
      \<and> TagViewSet_list rel d u (Some s) = TagViewSet_list rel d u None
      \<and> TagViewSet_list rel d u (Some s) =
          Inr (map TagSerializer
                 (remdups (order_by_name_desc (filter (\<lambda>t. tag_user t = u) (tag_tbl d))))))
   \<and> (py_int s = None \<longrightarrow>
        assigned_only_flag (Some s) = Inl ValueError
      \<and> TagViewSet_list rel d u (Some s) = Inl ValueError)
   \<and> assigned_only_flag None = Inr False
   \<and> TagViewSet_list rel d u None =
        Inr (map TagSerializer
               (remdups (order_by_name_desc (filter (\<lambda>t. tag_user t = u) (tag_tbl d)))))
   \<and> ValueError \<noteq> ValidationError \<and> status_code ValueError = 500"
proof -
  have 1: "assigned_only_flag (Some s) = Inr True
      \<and> TagViewSet_list rel d u (Some s) = TagViewSet_list rel d u (Some (codepoints ''1''))
      \<and> TagViewSet_list rel d u (Some s) =
          (case filter_isnull_False rel ''recipe'' d (tag_tbl d) of
             Inl e \<Rightarrow> Inl e
           | Inr queryset \<Rightarrow>
               Inr (map TagSerializer
                      (remdups (order_by_name_desc (filter (\<lambda>t. tag_user t = u) queryset)))))"
    if "py_int s = Some n" "n \<noteq> 0" for n
    using that by (simp add: TagViewSet_list_flag py_int_1 assigned_only_flag_def)
  have 2: "assigned_only_flag (Some s) = Inr False
      \<and> TagViewSet_list rel d u (Some s) = TagViewSet_list rel d u None
      \<and> TagViewSet_list rel d u (Some s) =
          Inr (map TagSerializer
                 (remdups (order_by_name_desc (filter (\<lambda>t. tag_user t = u) (tag_tbl d)))))"
    if "py_int s = Some 0"
    using that by (simp add: TagViewSet_list_flag TagViewSet_list_None assigned_only_flag_def)
  have 3: "assigned_only_flag (Some s) = Inl ValueError
      \<and> TagViewSet_list rel d u (Some s) = Inl ValueError"
    if "py_int s = None"
    using that by (simp add: TagViewSet_list_flag assigned_only_flag_def)
  have 4: "assigned_only_flag None = Inr False"
    by (simp add: assigned_only_flag_def)
  have 5: "TagViewSet_list rel d u None =
        Inr (map TagSerializer
               (remdups (order_by_name_desc (filter (\<lambda>t. tag_user t = u) (tag_tbl d)))))"
    by (rule TagViewSet_list_None)
  have 6: "ValueError \<noteq> ValidationError \<and> status_code ValueError = 500"
    by simp
  show ?thesis using 1 2 3 4 5 6 by blast
qed

theorem assigned_only_integer_conversion_witness:
  "py_int (codepoints ''2'') = Some 2
   \<and> TagViewSet_list ''recipe'' ex_db 1 (Some (codepoints ''2'')) = Inr [(1, ''Internal'')]
   \<and> TagViewSet_list ''recipe'' ex_db 1 (Some (codepoints ''1'')) = Inr [(1, ''Internal'')]
   \<and> py_int (codepoints ''0'') = Some 0
   \<and> TagViewSet_list ''recipe'' ex_db 1 (Some (codepoints ''0'')) =
       Inr [(1, ''Internal''), (2, ''External'')]
   \<and> TagViewSet_list ''recipe'' ex_db 1 None = Inr [(1, ''Internal''), (2, ''External'')]
   \<and> py_int (codepoints ''yes'') = None
   \<and> TagViewSet_list ''recipe'' ex_db 1 (Some (codepoints ''yes'')) = Inl ValueError
   \<and> length ex_long_zeros = 4301 \<and> set ex_long_zeros = {48}
   \<and> py_int ex_long_zeros = None
   \<and> TagViewSet_list ''recipe'' ex_db 1 (Some ex_long_zeros) = Inl ValueError
   \<and> py_int [12288, 1634, 32] = Some 2
   \<and> TagViewSet_list ''recipe'' ex_db 1 (Some [12288, 1634, 32]) = Inr [(1, ''Internal'')]"
proof -
  have p2: "py_int (codepoints ''2'') = Some 2" by code_simp
  have p0: "py_int (codepoints ''0'') = Some 0" by code_simp
  have pn: "py_int (codepoints ''yes'') = None" by code_simp
  have pl: "py_int ex_long_zeros = None"
  proof -
    have "py_int ex_long_zeros = (if max_str_digits < Suc 4300 then None else Some 0)"
      unfolding ex_long_zeros_def by (rule py_int_zeros)
    moreover have "max_str_digits < Suc 4300"
      by (simp add: max_str_digits_def)
    ultimately show ?thesis by (simp only: if_True)
  qed
  have ll: "length ex_long_zeros = 4301 \<and> set ex_long_zeros = {48}"
    by (simp add: ex_long_zeros_def)
  have tr: "TransformDecimalAndSpaceToASCII [12288, 1634, 32] = [32, 50, 32]"
    by (simp add: TransformDecimalAndSpaceToASCII_def Py_UNICODE_ISSPACE_def
        Py_UNICODE_TODECIMAL_def decimal_zeros_def)
  have pu: "py_int [12288, 1634, 32] = Some 2"
    unfolding py_int_def tr
    by (simp add: PyLong_FromString_def strip_sign_def Py_ISSPACE_def py_isdigit_def
        digit_value_def max_str_digits_def)
  have f: "filter_isnull_False ''recipe'' ''recipe'' ex_db (tag_tbl ex_db) =
      Inr [\<lparr>tag_id = 1, tag_name = ''Internal'', tag_user = 1\<rparr>,
           \<lparr>tag_id = 3, tag_name = ''Main project'', tag_user = 2\<rparr>]"
    by code_simp
  have l1: "map TagSerializer (remdups (order_by_name_desc (filter (\<lambda>t. tag_user t = 1)
      [\<lparr>tag_id = 1, tag_name = ''Internal'', tag_user = 1\<rparr>,
       \<lparr>tag_id = 3, tag_name = ''Main project'', tag_user = 2\<rparr>]))) = [(1, ''Internal'')]"
    by code_simp
  have l0: "map TagSerializer (remdups (order_by_name_desc (filter (\<lambda>t. tag_user t = 1)
      (tag_tbl ex_db)))) = [(1, ''Internal''), (2, ''External'')]"
    by code_simp
  have k1: "TagViewSet_list ''recipe'' ex_db 1 (Some (codepoints ''1'')) = Inr [(1, ''Internal'')]"
    by code_simp
  show ?thesis
    using assigned_only_integer_conversion [of "codepoints ''2''" "''recipe''" ex_db 1]
      assigned_only_integer_conversion [of "codepoints ''0''" "''recipe''" ex_db 1]
      assigned_only_integer_conversion [of "codepoints ''yes''" "''recipe''" ex_db 1]
      assigned_only_integer_conversion [of ex_long_zeros "''recipe''" ex_db 1]
      assigned_only_integer_conversion [of "[12288, 1634, 32]" "''recipe''" ex_db 1]
      p2 p0 pn pl ll pu f l1 l0 k1
    by simp
qed

end
